theory Spec2Isabelle
  imports Main "HOL-Library.Sublist" "HOL-Library.Multiset"
begin

section \<open>coreos-metadata: the command-line tool of \<open>internal/main.go\<close>\<close>

text \<open>
  The program reads the name of a cloud provider from its flags or from the kernel
  command line, fetches that provider's metadata, writes the attributes to a file and
  installs the SSH keys of a user. Go strings are byte sequences: a \<open>string\<close> here is a
  list of 8-bit characters.
\<close>

subsection \<open>The functions of package \<open>strings\<close> that the program calls\<close>

text \<open>
  \<open>strings.Split(s, sep)\<close> for a separator of one byte: the pieces between the
  separators, \<open>Count(s, sep) + 1\<close> of them, so that the empty string gives one empty piece.
\<close>

fun Split :: "string \<Rightarrow> char \<Rightarrow> string list" where
  "Split [] sep = [[]]"
| "Split (c # cs) sep =
     (if c = sep then [] # Split cs sep
      else (case Split cs sep of [] \<Rightarrow> [[c]] | t # ts \<Rightarrow> (c # t) # ts))"

text \<open>
  \<open>strings.SplitN(s, sep, 2)\<close> for a separator of one byte: the text before the first
  separator and the text after it, or \<open>s\<close> alone when it holds no separator.
\<close>

definition SplitN2 :: "string \<Rightarrow> char \<Rightarrow> string list" where
  "SplitN2 s sep =
     (if sep \<in> set s
      then [takeWhile (\<lambda>c. c \<noteq> sep) s, tl (dropWhile (\<lambda>c. c \<noteq> sep) s)]
      else [s])"

text \<open>
  \<open>strings.TrimSpace\<close> removes the leading and the trailing white space of a string, white
  space being the code points of \<open>unicode.IsSpace\<close>, read as UTF-8: U+0009 to U+000D,
  U+0020, U+0085, U+00A0, U+1680, U+2000 to U+200A, U+2028, U+2029, U+202F, U+205F and
  U+3000. The decoder accepts the shortest encoding of a code point only and reads any
  other byte as U+FFFD, which is no white space; so a string starts (or ends) with a
  white-space code point exactly when it starts (or ends) with one of the byte sequences
  below.
\<close>

definition whiteSpace :: "string list" where
  "whiteSpace =
     [[CHR 0x09], [CHR 0x0A], [CHR 0x0B], [CHR 0x0C], [CHR 0x0D], [CHR 0x20],
      [CHR 0xC2, CHR 0x85], [CHR 0xC2, CHR 0xA0],
      [CHR 0xE1, CHR 0x9A, CHR 0x80],
      [CHR 0xE2, CHR 0x80, CHR 0x80], [CHR 0xE2, CHR 0x80, CHR 0x81],
      [CHR 0xE2, CHR 0x80, CHR 0x82], [CHR 0xE2, CHR 0x80, CHR 0x83],
      [CHR 0xE2, CHR 0x80, CHR 0x84], [CHR 0xE2, CHR 0x80, CHR 0x85],
      [CHR 0xE2, CHR 0x80, CHR 0x86], [CHR 0xE2, CHR 0x80, CHR 0x87],
      [CHR 0xE2, CHR 0x80, CHR 0x88], [CHR 0xE2, CHR 0x80, CHR 0x89],
      [CHR 0xE2, CHR 0x80, CHR 0x8A],
      [CHR 0xE2, CHR 0x80, CHR 0xA8], [CHR 0xE2, CHR 0x80, CHR 0xA9],
      [CHR 0xE2, CHR 0x80, CHR 0xAF],
      [CHR 0xE2, CHR 0x81, CHR 0x9F],
      [CHR 0xE3, CHR 0x80, CHR 0x80]]"

definition leadingSpace :: "string \<Rightarrow> nat" where
  \<comment> \<open>the width in bytes of the white-space code point that \<open>s\<close> starts with, 0 if none\<close>
  "leadingSpace s = (case find (\<lambda>p. prefix p s) whiteSpace of None \<Rightarrow> 0 | Some p \<Rightarrow> length p)"

definition trailingSpace :: "string \<Rightarrow> nat" where
  \<comment> \<open>the width in bytes of the white-space code point that \<open>s\<close> ends with, 0 if none\<close>
  "trailingSpace s = (case find (\<lambda>p. suffix p s) whiteSpace of None \<Rightarrow> 0 | Some p \<Rightarrow> length p)"

function TrimLeft :: "string \<Rightarrow> string" where
  "TrimLeft s = (if leadingSpace s = 0 then s else TrimLeft (drop (leadingSpace s) s))"
  by pat_completeness auto
termination
proof (relation "measure length")
  show "wf (measure length)" by simp
next
  fix s :: string
  assume "leadingSpace s \<noteq> 0"
  moreover have "leadingSpace s \<le> length s"
    by (auto simp: leadingSpace_def prefix_length_le split: option.splits
        dest!: find_Some_iff[THEN iffD1])
  ultimately show "(drop (leadingSpace s) s, s) \<in> measure length" by simp
qed

function TrimRight :: "string \<Rightarrow> string" where
  "TrimRight s =
     (if trailingSpace s = 0 then s else TrimRight (take (length s - trailingSpace s) s))"
  by pat_completeness auto
termination
proof (relation "measure length")
  show "wf (measure length)" by simp
next
  fix s :: string
  assume "trailingSpace s \<noteq> 0"
  moreover have "trailingSpace s \<le> length s"
    by (auto simp: trailingSpace_def suffix_length_le split: option.splits
        dest!: find_Some_iff[THEN iffD1])
  ultimately show "(take (length s - trailingSpace s) s, s) \<in> measure length" by simp
qed

declare TrimLeft.simps [simp del] TrimRight.simps [simp del]

definition TrimSpace :: "string \<Rightarrow> string" where
  "TrimSpace s = TrimRight (TrimLeft s)"

text \<open>The line feed, the byte 0x0A.\<close>

definition LF :: string where
  "LF = [CHR 0x0A]"

text \<open>\<open>strings.Join(a, sep)\<close>: the elements of \<open>a\<close> with \<open>sep\<close> between them.\<close>

fun Join :: "string list \<Rightarrow> string \<Rightarrow> string" where
  "Join [] sep = []"
| "Join [x] sep = x"
| "Join (x # y # ys) sep = x @ sep @ Join (y # ys) sep"

subsection \<open>\<open>parseCmdline\<close>\<close>

definition cmdlinePath :: string where
  "cmdlinePath = ''/proc/cmdline''"

definition cmdlineOEMFlag :: string where
  "cmdlineOEMFlag = ''coreos.oem.id''"

text \<open>
  The body of the loop of \<open>parseCmdline\<close>, from the value of \<open>oem\<close> before an argument to
  its value after it: an argument with another key is skipped, and \<open>oem\<close> is assigned only
  when the argument has two parts.
\<close>

definition parseArg :: "string \<Rightarrow> string \<Rightarrow> string" where
  "parseArg oem arg =
     (let parts = SplitN2 (TrimSpace arg) (CHR ''='');
          key = parts ! 0
      in if key \<noteq> cmdlineOEMFlag then oem
         else if length parts = 2 then parts ! 1
         else oem)"

definition parseCmdline :: "string \<Rightarrow> string" where
  "parseCmdline cmdline = foldl parseArg [] (Split cmdline (CHR '' ''))"

subsection \<open>Data: errors, metadata, flags\<close>

text \<open>
  A Go \<open>error\<close> is either one that a library or the system hands to the program, known by
  its message, or one that the program builds with \<open>fmt.Errorf\<close>: the format and its
  arguments are kept as they are passed.
\<close>

datatype error = External string | Errorf string "fmtarg list"
and fmtarg = AStr string | AErr error

text \<open>
  Modelled from the spec: the declaration of \<open>providers.Metadata\<close> is in package
  \<open>providers\<close>, which is not part of the sources. The attributes are a mapping from
  attribute names to values, keys unique; the SSH keys are an ordered sequence of key
  lines or absent. \<open>main.go\<close> uses them so: it ranges over \<open>Attributes\<close> with string keys
  and values, compares \<open>SshKeys\<close> with \<open>nil\<close> and joins it as a slice of strings. \<open>None\<close> is
  the \<open>nil\<close> slice, \<open>Some []\<close> the empty slice that is not \<open>nil\<close>.
\<close>

record Metadata =
  Attributes :: "string \<rightharpoonup> string"
  SshKeys :: "string list option"

text \<open>\<open>user.User\<close> of package \<open>os/user\<close>.\<close>

record User =
  Uid :: string
  Gid :: string
  Username :: string
  Name :: string
  HomeDir :: string

text \<open>The struct \<open>flags\<close> of \<open>main\<close>, as \<open>flag.Parse\<close> fills it.\<close>

record flags =
  flag_cmdline :: bool
  flag_provider :: string
  flag_attributes :: string
  flag_sshKeys :: string
  flag_version :: bool

text \<open>
  How a call ends: it returns a value, it ends the process with \<open>os.Exit\<close>, or it panics.
\<close>

datatype 'a outcome = Return 'a | Exit nat | Panic string

subsection \<open>The world outside the program\<close>

text \<open>
  Every call that leaves the program is recorded in a trace, in the order of the calls.
\<close>

datatype event =
    EvReadFile string
  | EvFetch string
  | EvMkdirAll string nat
  | EvCreate string
  | EvWrite string string
  | EvClose string
  | EvLookup string
  | EvAkdOpen User bool
  | EvAkdAdd User string string bool bool
  | EvAkdSync User
  | EvAkdClose User
  | EvStdout string
  | EvStderr string "fmtarg list"

text \<open>
  The state of the world: the contents of the files, the named blocks of the
  authorized-keys store of each user, and the trace.
\<close>

record world =
  files :: "string \<rightharpoonup> string"
  stores :: "User \<rightharpoonup> (string \<rightharpoonup> string)"
  trace :: "event list"

text \<open>
  What the world answers during one run. The four \<open>FetchMetadata\<close> functions are those of
  the packages \<open>azure\<close>, \<open>ec2\<close>, \<open>gce\<close> and \<open>packet\<close>; \<open>path_Dir\<close> is \<open>path.Dir\<close>; \<open>rangeOrder\<close>
  is the order in which a \<open>range\<close> statement visits the keys of a map in this run, which Go
  leaves open. A failing write reports how many bytes it wrote before the error.
\<close>

record env =
  readFileRes :: "string \<Rightarrow> error + string"
  azure_FetchMetadata :: "error + Metadata"
  ec2_FetchMetadata :: "error + Metadata"
  gce_FetchMetadata :: "error + Metadata"
  packet_FetchMetadata :: "error + Metadata"
  path_Dir :: "string \<Rightarrow> string"
  mkdirAllErr :: "string \<Rightarrow> error option"
  createErr :: "string \<Rightarrow> error option"
  writeErr :: "string \<Rightarrow> string \<Rightarrow> (nat \<times> error) option"
  rangeOrder :: "(string \<rightharpoonup> string) \<Rightarrow> string list"
  lookupRes :: "string \<Rightarrow> error + User"
  akdOpenErr :: "User \<Rightarrow> error option"
  akdAddErr :: "User \<Rightarrow> string \<Rightarrow> string \<Rightarrow> error option"
  akdSyncErr :: "User \<Rightarrow> error option"

text \<open>
  A \<open>range\<close> statement over a map visits every key of the map once.
\<close>

definition rangeVisitsAll :: "env \<Rightarrow> (string \<rightharpoonup> string) \<Rightarrow> bool" where
  "rangeVisitsAll e m \<longleftrightarrow> distinct (rangeOrder e m) \<and> set (rangeOrder e m) = dom m"

definition emit :: "event \<Rightarrow> world \<Rightarrow> world" where
  "emit ev w = w\<lparr>trace := trace w @ [ev]\<rparr>"

text \<open>The events of \<open>w'\<close> that \<open>w\<close> does not have yet.\<close>

definition since :: "world \<Rightarrow> world \<Rightarrow> event list" where
  "since w w' = drop (length (trace w)) (trace w')"

subsubsection \<open>Files and the standard streams\<close>

definition ReadFile :: "env \<Rightarrow> string \<Rightarrow> world \<Rightarrow> (error + string) \<times> world" where
  "ReadFile e p w = (readFileRes e p, emit (EvReadFile p) w)"

definition MkdirAll :: "env \<Rightarrow> string \<Rightarrow> nat \<Rightarrow> world \<Rightarrow> error option \<times> world" where
  "MkdirAll e dir perm w = (mkdirAllErr e dir, emit (EvMkdirAll dir perm) w)"

text \<open>\<open>os.Create\<close> makes the file or empties it; the file it opens is known by its path.\<close>

definition Create :: "env \<Rightarrow> string \<Rightarrow> world \<Rightarrow> error option \<times> world" where
  "Create e p w =
     (case createErr e p of
        Some err \<Rightarrow> (Some err, emit (EvCreate p) w)
      | None \<Rightarrow> (None, emit (EvCreate p) (w\<lparr>files := (files w)(p \<mapsto> [])\<rparr>)))"

definition appendFile :: "string \<Rightarrow> string \<Rightarrow> world \<Rightarrow> world" where
  "appendFile p s w =
     w\<lparr>files := (files w)(p \<mapsto> (case files w p of None \<Rightarrow> [] | Some c \<Rightarrow> c) @ s)\<rparr>"

text \<open>A write to the open file \<open>out\<close>, at the end of what was written before.\<close>

definition Write :: "env \<Rightarrow> string \<Rightarrow> string \<Rightarrow> world \<Rightarrow> error option \<times> world" where
  "Write e out s w =
     (case writeErr e out s of
        None \<Rightarrow> (None, emit (EvWrite out s) (appendFile out s w))
      | Some (n, err) \<Rightarrow> (Some err, emit (EvWrite out s) (appendFile out (take n s) w)))"

definition Close :: "string \<Rightarrow> world \<Rightarrow> world" where
  "Close out w = emit (EvClose out) w"

definition Println :: "string \<Rightarrow> world \<Rightarrow> world" where
  "Println s w = emit (EvStdout (s @ LF)) w"

text \<open>\<open>fmt.Fprintf(os.Stderr, format, args...)\<close>.\<close>

definition Eprintf :: "string \<Rightarrow> fmtarg list \<Rightarrow> world \<Rightarrow> world" where
  "Eprintf format args w = emit (EvStderr format args) w"

subsubsection \<open>The user database and the authorized-keys store\<close>

definition Lookup :: "env \<Rightarrow> string \<Rightarrow> world \<Rightarrow> (error + User) \<times> world" where
  "Lookup e username w = (lookupRes e username, emit (EvLookup username) w)"

text \<open>
  Modelled from the spec: package \<open>authorized_keys_d\<close> is not part of the sources. Its store
  is identified by a system user and supports create-if-absent open, replacing a named
  block by a given content, and a durable sync; any of them can fail.
\<close>

definition akdOpen :: "env \<Rightarrow> User \<Rightarrow> bool \<Rightarrow> world \<Rightarrow> error option \<times> world" where
  "akdOpen e usr create w =
     (case akdOpenErr e usr of
        Some err \<Rightarrow> (Some err, emit (EvAkdOpen usr create) w)
      | None \<Rightarrow>
          (None, emit (EvAkdOpen usr create)
             (if create \<and> stores w usr = None
              then w\<lparr>stores := (stores w)(usr \<mapsto> Map.empty)\<rparr> else w)))"

definition akdAdd ::
  "env \<Rightarrow> User \<Rightarrow> string \<Rightarrow> string \<Rightarrow> bool \<Rightarrow> bool \<Rightarrow> world \<Rightarrow> error option \<times> world" where
  "akdAdd e usr name keys replace force w =
     (case akdAddErr e usr name keys of
        Some err \<Rightarrow> (Some err, emit (EvAkdAdd usr name keys replace force) w)
      | None \<Rightarrow>
          (None, emit (EvAkdAdd usr name keys replace force)
             (w\<lparr>stores := (stores w)
                  (usr \<mapsto> (case stores w usr of None \<Rightarrow> Map.empty | Some b \<Rightarrow> b)(name \<mapsto> keys))\<rparr>)))"

definition akdSync :: "env \<Rightarrow> User \<Rightarrow> world \<Rightarrow> error option \<times> world" where
  "akdSync e usr w = (akdSyncErr e usr, emit (EvAkdSync usr) w)"

definition akdClose :: "User \<Rightarrow> world \<Rightarrow> world" where
  "akdClose usr w = emit (EvAkdClose usr) w"

subsection \<open>\<open>fetchMetadata\<close>\<close>

definition fetchMetadata :: "env \<Rightarrow> string \<Rightarrow> world \<Rightarrow> (error + Metadata) outcome \<times> world" where
  "fetchMetadata e provider w =
     (if provider = ''azure'' then (Return (azure_FetchMetadata e), emit (EvFetch ''azure'') w)
      else if provider = ''ec2'' then (Return (ec2_FetchMetadata e), emit (EvFetch ''ec2'') w)
      else if provider = ''gce'' then (Return (gce_FetchMetadata e), emit (EvFetch ''gce'') w)
      else if provider = ''packet'' then (Return (packet_FetchMetadata e), emit (EvFetch ''packet'') w)
      else (Panic ''bad provider'', w))"

subsection \<open>\<open>writeVariable\<close> and \<open>writeMetadataAttributes\<close>\<close>

text \<open>The line that \<open>fmt.Fprintf(out, "COREOS_%s=%s\n", key, value)\<close> writes.\<close>

definition attributeLine :: "string \<Rightarrow> string \<Rightarrow> string" where
  "attributeLine key val = ''COREOS_'' @ key @ ''='' @ val @ LF"

definition writeVariable :: "env \<Rightarrow> string \<Rightarrow> string \<Rightarrow> string \<Rightarrow> world \<Rightarrow> error option \<times> world" where
  "writeVariable e out key val w =
     (if length val > 0 then Write e out (attributeLine key val) w else (None, w))"

text \<open>
  The loop over \<open>metadata.Attributes\<close>, on the keys still to visit; it stops at the first
  error. A key that the map does not hold has no turn in the loop.
\<close>

fun writeVariables ::
  "env \<Rightarrow> string \<Rightarrow> (string \<rightharpoonup> string) \<Rightarrow> string list \<Rightarrow> world \<Rightarrow> error option \<times> world" where
  "writeVariables e out m [] w = (None, w)"
| "writeVariables e out m (key # keys) w =
     (case m key of
        None \<Rightarrow> writeVariables e out m keys w
      | Some val \<Rightarrow>
          (case writeVariable e out key val w of
             (Some err, w') \<Rightarrow> (Some err, w')
           | (None, w') \<Rightarrow> writeVariables e out m keys w'))"

text \<open>
  The functions that are handed the metadata return it as it is after the call, next to
  their result and the world: the map and the slice are shared with the caller.
\<close>

definition writeMetadataAttributes ::
  "env \<Rightarrow> string \<Rightarrow> Metadata \<Rightarrow> world \<Rightarrow> error option outcome \<times> Metadata \<times> world" where
  "writeMetadataAttributes e attributes metadata w =
     (if attributes = [] then (Return None, metadata, w)
      else
        (case MkdirAll e (path_Dir e attributes) (7 * 64 + 5 * 8 + 5) w of
           (Some err, w1) \<Rightarrow>
             (Exit 1, metadata, Eprintf (''failed to create directory: %v'' @ LF) [AErr err] w1)
         | (None, w1) \<Rightarrow>
             (case Create e attributes w1 of
                (Some err, w2) \<Rightarrow>
                  (Exit 1, metadata, Eprintf (''failed to create file: %v'' @ LF) [AErr err] w2)
              | (None, w2) \<Rightarrow>
                  (case writeVariables e attributes (Attributes metadata)
                          (rangeOrder e (Attributes metadata)) w2 of
                     (r, w3) \<Rightarrow> (Return r, metadata, Close attributes w3)))))"

subsection \<open>\<open>writeMetadataKeys\<close>\<close>

definition writeMetadataKeys ::
  "env \<Rightarrow> string \<Rightarrow> Metadata \<Rightarrow> world \<Rightarrow> error option \<times> Metadata \<times> world" where
  "writeMetadataKeys e username metadata w =
     (if username = [] \<or> SshKeys metadata = None then (None, metadata, w)
      else
        (case Lookup e username w of
           (Inl err, w1) \<Rightarrow>
             (Some (Errorf ''unable to lookup user %q: %v'' [AStr username, AErr err]),
              metadata, w1)
         | (Inr usr, w1) \<Rightarrow>
             (case akdOpen e usr True w1 of
                (Some err, w2) \<Rightarrow> (Some err, metadata, w2)
              | (None, w2) \<Rightarrow>
                  (let ks = Join (case SshKeys metadata of None \<Rightarrow> [] | Some keys \<Rightarrow> keys) LF
                   in case akdAdd e usr ''coreos-metadata'' ks True True w2 of
                        (Some err, w3) \<Rightarrow> (Some err, metadata, akdClose usr w3)
                      | (None, w3) \<Rightarrow>
                          (case akdSync e usr w3 of
                             (r, w4) \<Rightarrow> (r, metadata, akdClose usr w4))))))"

subsection \<open>\<open>main\<close>\<close>

definition version :: string where
  "version = ''was not built properly''"

definition versionString :: string where
  "versionString = ''coreos-metadata '' @ version"

definition validProviders :: "string list" where
  "validProviders = [''azure'', ''ec2'', ''gce'', ''packet'']"

text \<open>
  Lines 67 to 75: the provider on which the \<open>switch\<close> of line 77 decides, or the exit with
  code 2 when the kernel command line cannot be read.
\<close>

definition resolveProvider :: "env \<Rightarrow> flags \<Rightarrow> world \<Rightarrow> string outcome \<times> world" where
  "resolveProvider e fl w =
     (if flag_cmdline fl \<and> flag_provider fl = [] then
        (case ReadFile e cmdlinePath w of
           (Inl err, w1) \<Rightarrow> (Exit 2, Eprintf (''could not read cmdline: %v'' @ LF) [AErr err] w1)
         | (Inr args, w1) \<Rightarrow> (Return (parseCmdline args), w1))
      else (Return (flag_provider fl), w))"

definition main :: "env \<Rightarrow> flags \<Rightarrow> world \<Rightarrow> unit outcome \<times> world" where
  "main e fl w =
     (if flag_version fl then (Return (), Println versionString w)
      else
        (case resolveProvider e fl w of
           (Exit n, w1) \<Rightarrow> (Exit n, w1)
         | (Panic msg, w1) \<Rightarrow> (Panic msg, w1)
         | (Return provider, w1) \<Rightarrow>
             if provider \<notin> set validProviders
             then (Exit 2, Eprintf (''invalid provider %q'' @ LF) [AStr provider] w1)
             else
               (case fetchMetadata e provider w1 of
                  (Panic msg, w2) \<Rightarrow> (Panic msg, w2)
                | (Exit n, w2) \<Rightarrow> (Exit n, w2)
                | (Return (Inl err), w2) \<Rightarrow>
                    (Exit 1, Eprintf (''failed to fetch metadata: %v'' @ LF) [AErr err] w2)
                | (Return (Inr metadata), w2) \<Rightarrow>
                    (case writeMetadataAttributes e (flag_attributes fl) metadata w2 of
                       (Exit n, metadata3, w3) \<Rightarrow> (Exit n, w3)
                     | (Panic msg, metadata3, w3) \<Rightarrow> (Panic msg, w3)
                     | (Return (Some err), metadata3, w3) \<Rightarrow>
                         (Exit 1, Eprintf (''failed to write metadata attributes: %v'' @ LF) [AErr err] w3)
                     | (Return None, metadata3, w3) \<Rightarrow>
                         (case writeMetadataKeys e (flag_sshKeys fl) metadata3 w3 of
                            (Some err, metadata4, w4) \<Rightarrow>
                              (Exit 1, Eprintf (''failed to write metadata keys: %v'' @ LF) [AErr err] w4)
                          | (None, metadata4, w4) \<Rightarrow> (Return (), w4))))))"

subsection \<open>The specification's reading of the kernel command line\<close>

text \<open>
  The specification's words for the resolver: the tokens of the line are its
  space-separated pieces with the surrounding white space trimmed; the key of a token is
  the text before its first \<open>=\<close>, its value the text after it, or the empty string if no
  \<open>=\<close> is present; an occurrence of the designated key is a token with that key.
\<close>

definition spec_tokens :: "string \<Rightarrow> string list" where
  "spec_tokens s = map TrimSpace (Split s (CHR '' ''))"

definition spec_key :: "string \<Rightarrow> string" where
  "spec_key t = takeWhile (\<lambda>c. c \<noteq> CHR ''='') t"

definition spec_value :: "string \<Rightarrow> string" where
  "spec_value t = tl (dropWhile (\<lambda>c. c \<noteq> CHR ''='') t)"

definition spec_occurrences :: "string \<Rightarrow> string list" where
  "spec_occurrences s = filter (\<lambda>t. spec_key t = cmdlineOEMFlag) (spec_tokens s)"

definition hasEquals :: "string \<Rightarrow> bool" where
  "hasEquals t \<longleftrightarrow> CHR ''='' \<in> set t"

text \<open>
  The value of the last of the given occurrences that has an \<open>=\<close>, and \<open>oem\<close> if none has.
\<close>

definition spec_oem :: "string \<Rightarrow> string list \<Rightarrow> string" where
  "spec_oem oem occs =
     (if filter hasEquals occs = [] then oem else spec_value (last (filter hasEquals occs)))"

subsection \<open>Reading a run\<close>

text \<open>The kinds of events: fetches, operations on files, operations on a store.\<close>

fun isFetch :: "event \<Rightarrow> bool" where
  "isFetch (EvFetch p) = True"
| "isFetch ev = False"

fun isFileOp :: "event \<Rightarrow> bool" where
  "isFileOp (EvMkdirAll d m) = True"
| "isFileOp (EvCreate p) = True"
| "isFileOp (EvWrite p s) = True"
| "isFileOp (EvClose p) = True"
| "isFileOp ev = False"

fun isStoreOp :: "event \<Rightarrow> bool" where
  "isStoreOp (EvAkdOpen u c) = True"
| "isStoreOp (EvAkdAdd u n k r f) = True"
| "isStoreOp (EvAkdSync u) = True"
| "isStoreOp (EvAkdClose u) = True"
| "isStoreOp ev = False"

text \<open>The three parts of what the two writers return.\<close>

definition attributesResult :: "env \<Rightarrow> string \<Rightarrow> Metadata \<Rightarrow> world \<Rightarrow> error option outcome" where
  "attributesResult e attributes metadata w = fst (writeMetadataAttributes e attributes metadata w)"

definition attributesMetadata :: "env \<Rightarrow> string \<Rightarrow> Metadata \<Rightarrow> world \<Rightarrow> Metadata" where
  "attributesMetadata e attributes metadata w =
     fst (snd (writeMetadataAttributes e attributes metadata w))"

definition attributesWorld :: "env \<Rightarrow> string \<Rightarrow> Metadata \<Rightarrow> world \<Rightarrow> world" where
  "attributesWorld e attributes metadata w =
     snd (snd (writeMetadataAttributes e attributes metadata w))"

definition keysResult :: "env \<Rightarrow> string \<Rightarrow> Metadata \<Rightarrow> world \<Rightarrow> error option" where
  "keysResult e username metadata w = fst (writeMetadataKeys e username metadata w)"

definition keysMetadata :: "env \<Rightarrow> string \<Rightarrow> Metadata \<Rightarrow> world \<Rightarrow> Metadata" where
  "keysMetadata e username metadata w = fst (snd (writeMetadataKeys e username metadata w))"

definition keysWorld :: "env \<Rightarrow> string \<Rightarrow> Metadata \<Rightarrow> world \<Rightarrow> world" where
  "keysWorld e username metadata w = snd (snd (writeMetadataKeys e username metadata w))"

text \<open>
  The keys of a map whose value is a non-empty string, in the order of this run, and the
  lines \<open>COREOS_<KEY>=<value>\<close> of these keys.
\<close>

definition nonEmptyKeys :: "env \<Rightarrow> (string \<rightharpoonup> string) \<Rightarrow> string list" where
  "nonEmptyKeys e m =
     filter (\<lambda>k. case m k of None \<Rightarrow> False | Some v \<Rightarrow> v \<noteq> []) (rangeOrder e m)"

definition lineOf :: "(string \<rightharpoonup> string) \<Rightarrow> string \<Rightarrow> string" where
  "lineOf m k = (case m k of None \<Rightarrow> [] | Some v \<Rightarrow> attributeLine k v)"

definition attributeLines :: "env \<Rightarrow> (string \<rightharpoonup> string) \<Rightarrow> string list" where
  "attributeLines e m = map (lineOf m) (nonEmptyKeys e m)"

text \<open>
  The attribute file can be written: the directory and the file can be made and no write
  to the file fails.
\<close>

definition fileWritable :: "env \<Rightarrow> string \<Rightarrow> bool" where
  "fileWritable e p \<longleftrightarrow>
     mkdirAllErr e (path_Dir e p) = None \<and> createErr e p = None \<and> (\<forall>s. writeErr e p s = None)"

subsection \<open>An example run\<close>

text \<open>
  The run \<open>--provider=ec2 --attributes=/tmp/out --ssh-keys=core\<close> on a machine where every
  call succeeds, the user \<open>core\<close> exists and has a block of keys from an earlier run, and
  the provider answers with three attributes, one of them empty, and an empty list of
  keys.
\<close>

definition coreUser :: User where
  "coreUser = \<lparr>Uid = ''500'', Gid = ''500'', Username = ''core'', Name = ''CoreOS Admin'',
     HomeDir = ''/home/core''\<rparr>"

definition exampleMetadata :: Metadata where
  "exampleMetadata =
     \<lparr>Attributes = [''A'' \<mapsto> ''x'', ''B'' \<mapsto> [], ''C'' \<mapsto> ''y''], SshKeys = Some []\<rparr>"

definition exampleEnv :: env where
  "exampleEnv =
     \<lparr>readFileRes = (\<lambda>p. Inr ''BOOT_IMAGE=/coreos/vmlinuz-a coreos.oem.id=ec2''),
      azure_FetchMetadata = Inl (External ''no route to host''),
      ec2_FetchMetadata = Inr exampleMetadata,
      gce_FetchMetadata = Inl (External ''no route to host''),
      packet_FetchMetadata = Inl (External ''no route to host''),
      path_Dir = (\<lambda>p. ''/tmp''),
      mkdirAllErr = (\<lambda>d. None),
      createErr = (\<lambda>p. None),
      writeErr = (\<lambda>p s. None),
      rangeOrder = (\<lambda>m. [''A'', ''B'', ''C'']),
      lookupRes = (\<lambda>u. if u = ''core'' then Inr coreUser
                        else Inl (External ''user: unknown user'')),
      akdOpenErr = (\<lambda>u. None),
      akdAddErr = (\<lambda>u n k. None),
      akdSyncErr = (\<lambda>u. None)\<rparr>"

text \<open>The same machine in a run where the map is visited in the opposite order.\<close>

definition exampleEnv2 :: env where
  "exampleEnv2 = exampleEnv\<lparr>rangeOrder := (\<lambda>m. [''C'', ''B'', ''A''])\<rparr>"

definition exampleFlags :: flags where
  "exampleFlags =
     \<lparr>flag_cmdline = False, flag_provider = ''ec2'', flag_attributes = ''/tmp/out'',
      flag_sshKeys = ''core'', flag_version = False\<rparr>"

definition exampleWorld :: world where
  "exampleWorld =
     \<lparr>files = Map.empty,
      stores = [coreUser \<mapsto> [''coreos-metadata'' \<mapsto> ''ssh-rsa AAAA old'']],
      trace = []\<rparr>"

text \<open>The same run for a user \<open>ghost\<close> that the machine does not have.\<close>

definition ghostFlags :: flags where
  "ghostFlags = exampleFlags\<lparr>flag_sshKeys := ''ghost''\<rparr>"

text \<open>The world in which the attribute file exists already, with a line of an earlier run.\<close>

definition staleWorld :: world where
  "staleWorld = exampleWorld\<lparr>files := [''/tmp/out'' \<mapsto> ''COREOS_OLD=1'' @ LF]\<rparr>"

section \<open>Properties\<close>

subsection \<open>The resolver\<close>

lemma parseArg_eq:
  "parseArg oem arg =
     (if spec_key (TrimSpace arg) = cmdlineOEMFlag \<and> hasEquals (TrimSpace arg)
      then spec_value (TrimSpace arg) else oem)"
proof (cases "CHR ''='' \<in> set (TrimSpace arg)")
  case True
  then show ?thesis
    by (simp add: parseArg_def SplitN2_def spec_key_def spec_value_def hasEquals_def Let_def)
next
  case False
  then have "takeWhile (\<lambda>c. c \<noteq> CHR ''='') (TrimSpace arg) = TrimSpace arg"
    by (auto simp: takeWhile_eq_all_conv)
  with False show ?thesis
    by (simp add: parseArg_def SplitN2_def spec_key_def spec_value_def hasEquals_def Let_def)
qed

lemma foldl_parseArg:
  "foldl parseArg oem args =
     spec_oem oem (filter (\<lambda>t. spec_key t = cmdlineOEMFlag) (map TrimSpace args))"
proof (induction args rule: rev_induct)
  case Nil
  show ?case by (simp add: spec_oem_def)
next
  case (snoc a args)
  let ?occ = "\<lambda>xs. filter (\<lambda>t. spec_key t = cmdlineOEMFlag) (map TrimSpace xs)"
  have "foldl parseArg oem (args @ [a]) = parseArg (foldl parseArg oem args) a" by simp
  also have "\<dots> = parseArg (spec_oem oem (?occ args)) a" by (simp only: snoc)
  also have "\<dots> = (if spec_key (TrimSpace a) = cmdlineOEMFlag \<and> hasEquals (TrimSpace a)
      then spec_value (TrimSpace a) else spec_oem oem (?occ args))" by (rule parseArg_eq)
  also have "\<dots> = spec_oem oem (?occ (args @ [a]))"
    by (simp add: spec_oem_def)
  finally show ?case .
qed

text \<open>
  The result of \<open>parseCmdline\<close> is the value of the last occurrence of the key that has an
  \<open>=\<close>, and the empty string when there is none.
\<close>

lemma parseCmdline_eq: "parseCmdline s = spec_oem [] (spec_occurrences s)"
  by (simp add: parseCmdline_def foldl_parseArg spec_occurrences_def spec_tokens_def)

lemma spec_oem_last:
  "occs \<noteq> [] \<Longrightarrow> hasEquals (last occs) \<Longrightarrow> spec_oem oem occs = spec_value (last occs)"
  by (induction occs rule: rev_induct) (auto simp: spec_oem_def)

lemma spec_oem_bare:
  "occs \<noteq> [] \<Longrightarrow> \<not> hasEquals (last occs) \<Longrightarrow> spec_oem oem occs = spec_oem oem (butlast occs)"
  by (induction occs rule: rev_induct) (auto simp: spec_oem_def)

text \<open>
  Claim C1, as it is written: whenever the key \<open>coreos.oem.id\<close> occurs in the line,
  \<open>parseCmdline\<close> returns the value of its last occurrence. It fails on the line
  \<open>coreos.oem.id=azure coreos.oem.id\<close>: the last occurrence is the bare key, whose value
  is the empty string, and \<open>parseCmdline\<close> returns \<open>azure\<close>.
\<close>

theorem parseCmdline_last_occurrence_counterexample:
  "spec_occurrences ''coreos.oem.id=azure coreos.oem.id'' \<noteq> [] \<and>
   spec_value (last (spec_occurrences ''coreos.oem.id=azure coreos.oem.id'')) = [] \<and>
   parseCmdline ''coreos.oem.id=azure coreos.oem.id'' = ''azure''"
  by code_simp

text \<open>
  Claim C1, amended: whenever the key \<open>coreos.oem.id\<close> occurs in the line and its last
  occurrence has an \<open>=\<close>, \<open>parseCmdline\<close> returns the value of that last occurrence; in
  particular it returns \<open>ec2\<close> for \<open>foo=1 coreos.oem.id=azure bar coreos.oem.id=ec2\<close>.
\<close>

theorem parseCmdline_last_occurrence:
  "(spec_occurrences s \<noteq> [] \<and> hasEquals (last (spec_occurrences s))
      \<longrightarrow> parseCmdline s = spec_value (last (spec_occurrences s))) \<and>
   parseCmdline ''foo=1 coreos.oem.id=azure bar coreos.oem.id=ec2'' = ''ec2''"
proof
  show "spec_occurrences s \<noteq> [] \<and> hasEquals (last (spec_occurrences s))
      \<longrightarrow> parseCmdline s = spec_value (last (spec_occurrences s))"
    by (simp add: parseCmdline_eq spec_oem_last)
  show "parseCmdline ''foo=1 coreos.oem.id=azure bar coreos.oem.id=ec2'' = ''ec2''"
    by code_simp
qed

theorem parseCmdline_last_occurrence_witness:
  "spec_occurrences ''foo=1 coreos.oem.id=azure bar coreos.oem.id=ec2'' \<noteq> [] \<and>
   hasEquals (last (spec_occurrences ''foo=1 coreos.oem.id=azure bar coreos.oem.id=ec2'')) \<and>
   parseCmdline ''foo=1 coreos.oem.id=azure bar coreos.oem.id=ec2'' =
     spec_value (last (spec_occurrences ''foo=1 coreos.oem.id=azure bar coreos.oem.id=ec2''))"
proof -
  have h1: "spec_occurrences ''foo=1 coreos.oem.id=azure bar coreos.oem.id=ec2'' \<noteq> []"
    by code_simp
  have h2: "hasEquals (last (spec_occurrences ''foo=1 coreos.oem.id=azure bar coreos.oem.id=ec2''))"
    by code_simp
  from h1 h2 parseCmdline_last_occurrence
    [of "''foo=1 coreos.oem.id=azure bar coreos.oem.id=ec2''"]
  show ?thesis by blast
qed

text \<open>
  Claim C2, as it is written: when the last occurrence of the key is the token
  \<open>coreos.oem.id=\<close> or the bare token \<open>coreos.oem.id\<close>, \<open>parseCmdline\<close> returns the empty
  string whatever the earlier occurrences are. It fails for the bare token: on the line
  \<open>coreos.oem.id=gce quiet coreos.oem.id\<close> the result is \<open>gce\<close>.
\<close>

theorem parseCmdline_flag_without_value_counterexample:
  "spec_occurrences ''coreos.oem.id=gce quiet coreos.oem.id'' \<noteq> [] \<and>
   last (spec_occurrences ''coreos.oem.id=gce quiet coreos.oem.id'') = cmdlineOEMFlag \<and>
   parseCmdline ''coreos.oem.id=gce quiet coreos.oem.id'' = ''gce''"
  by code_simp

text \<open>
  Claim C2, amended: when the last occurrence of the key is the token \<open>coreos.oem.id=\<close>,
  \<open>parseCmdline\<close> returns the empty string whatever the earlier occurrences are; when it
  is the bare token \<open>coreos.oem.id\<close>, that token is passed over and \<open>parseCmdline\<close> returns
  what the earlier occurrences give: the value of the last of them that has an \<open>=\<close>, and
  the empty string if none has.
\<close>

theorem parseCmdline_flag_without_value:
  assumes "spec_occurrences s \<noteq> []"
  shows "(last (spec_occurrences s) = cmdlineOEMFlag @ ''='' \<longrightarrow> parseCmdline s = []) \<and>
         (last (spec_occurrences s) = cmdlineOEMFlag \<longrightarrow>
            parseCmdline s = spec_oem [] (butlast (spec_occurrences s)))"
proof (intro conjI impI)
  assume l: "last (spec_occurrences s) = cmdlineOEMFlag @ ''=''"
  then have "hasEquals (last (spec_occurrences s))"
    by (simp add: hasEquals_def)
  with assms have "parseCmdline s = spec_value (last (spec_occurrences s))"
    by (simp add: parseCmdline_eq spec_oem_last)
  also have "\<dots> = []"
    unfolding l by (simp add: spec_value_def cmdlineOEMFlag_def)
  finally show "parseCmdline s = []" .
next
  assume l: "last (spec_occurrences s) = cmdlineOEMFlag"
  then have "\<not> hasEquals (last (spec_occurrences s))"
    by (simp add: hasEquals_def cmdlineOEMFlag_def)
  with assms show "parseCmdline s = spec_oem [] (butlast (spec_occurrences s))"
    by (simp add: parseCmdline_eq spec_oem_bare)
qed

theorem parseCmdline_flag_without_value_witness:
  "spec_occurrences ''coreos.oem.id=ec2 coreos.oem.id='' \<noteq> [] \<and>
   last (spec_occurrences ''coreos.oem.id=ec2 coreos.oem.id='') = cmdlineOEMFlag @ ''='' \<and>
   parseCmdline ''coreos.oem.id=ec2 coreos.oem.id='' = [] \<and>
   spec_occurrences ''coreos.oem.id=ec2 ro coreos.oem.id'' \<noteq> [] \<and>
   last (spec_occurrences ''coreos.oem.id=ec2 ro coreos.oem.id'') = cmdlineOEMFlag \<and>
   parseCmdline ''coreos.oem.id=ec2 ro coreos.oem.id'' =
     spec_oem [] (butlast (spec_occurrences ''coreos.oem.id=ec2 ro coreos.oem.id''))"
proof -
  have a1: "spec_occurrences ''coreos.oem.id=ec2 coreos.oem.id='' \<noteq> []"
    by code_simp
  have a2: "last (spec_occurrences ''coreos.oem.id=ec2 coreos.oem.id='') = cmdlineOEMFlag @ ''=''"
    by code_simp
  have b1: "spec_occurrences ''coreos.oem.id=ec2 ro coreos.oem.id'' \<noteq> []"
    by code_simp
  have b2: "last (spec_occurrences ''coreos.oem.id=ec2 ro coreos.oem.id'') = cmdlineOEMFlag"
    by code_simp
  from a1 a2 b1 b2
    parseCmdline_flag_without_value [OF a1]
    parseCmdline_flag_without_value [OF b1]
  show ?thesis by blast
qed

subsection \<open>What a call leaves of the world\<close>

lemma trace_emit [simp]: "trace (emit ev w) = trace w @ [ev]"
  by (simp add: emit_def)

lemma files_emit [simp]: "files (emit ev w) = files w"
  by (simp add: emit_def)

lemma stores_emit [simp]: "stores (emit ev w) = stores w"
  by (simp add: emit_def)

lemma resolveProvider_frame:
  assumes "fst (resolveProvider e fl w) = Return provider"
  shows "files (snd (resolveProvider e fl w)) = files w"
    and "stores (snd (resolveProvider e fl w)) = stores w"
    and "trace (snd (resolveProvider e fl w)) = trace w \<or>
         trace (snd (resolveProvider e fl w)) = trace w @ [EvReadFile cmdlinePath]"
  using assms
  by (auto simp: resolveProvider_def ReadFile_def Eprintf_def split: if_splits sum.splits)

lemma resolveProvider_no_panic: "fst (resolveProvider e fl w) \<noteq> Panic msg"
  by (simp add: resolveProvider_def ReadFile_def split: prod.splits sum.splits)

lemma fetchMetadata_valid:
  "provider \<in> set validProviders \<Longrightarrow> \<exists>r. fst (fetchMetadata e provider w) = Return r"
  by (auto simp: validProviders_def fetchMetadata_def)

lemma writeMetadataAttributes_no_panic:
  "fst (writeMetadataAttributes e a md w) \<noteq> Panic msg"
  by (simp add: writeMetadataAttributes_def split: prod.splits option.splits)

subsection \<open>The validation of the provider\<close>

text \<open>
  Claim C5: when the provider on which \<open>main\<close> decides (the flag, or the value read from
  the kernel command line) is none of \<open>azure\<close>, \<open>ec2\<close>, \<open>gce\<close> and \<open>packet\<close>, the empty string
  included, the program exits with code 2, and it has fetched nothing, has made or
  written no file and has touched no authorized-keys store. The run is one that comes to
  the validation: \<open>--version\<close> is not given.
\<close>

theorem invalid_provider_exits_2:
  assumes "\<not> flag_version fl"
    and "fst (resolveProvider e fl w) = Return provider"
    and "provider \<notin> set validProviders"
  shows "fst (main e fl w) = Exit 2 \<and>
         \<not> list_ex (\<lambda>ev. isFetch ev \<or> isFileOp ev \<or> isStoreOp ev) (since w (snd (main e fl w))) \<and>
         files (snd (main e fl w)) = files w \<and>
         stores (snd (main e fl w)) = stores w"
proof -
  obtain w1 where r: "resolveProvider e fl w = (Return provider, w1)"
    using assms(2) by (cases "resolveProvider e fl w") simp
  have m: "main e fl w = (Exit 2, Eprintf (''invalid provider %q'' @ LF) [AStr provider] w1)"
    using assms(1,3) r by (simp add: main_def)
  from resolveProvider_frame[OF assms(2)] r
  have f: "files w1 = files w" and s: "stores w1 = stores w"
    and t: "trace w1 = trace w \<or> trace w1 = trace w @ [EvReadFile cmdlinePath]"
    by simp_all
  from t have "since w (Eprintf (''invalid provider %q'' @ LF) [AStr provider] w1) =
        [EvStderr (''invalid provider %q'' @ LF) [AStr provider]] \<or>
      since w (Eprintf (''invalid provider %q'' @ LF) [AStr provider] w1) =
        [EvReadFile cmdlinePath, EvStderr (''invalid provider %q'' @ LF) [AStr provider]]"
    by (auto simp: since_def Eprintf_def)
  then have "\<not> list_ex (\<lambda>ev. isFetch ev \<or> isFileOp ev \<or> isStoreOp ev)
      (since w (Eprintf (''invalid provider %q'' @ LF) [AStr provider] w1))"
    by auto
  with m f s show ?thesis by (simp add: Eprintf_def)
qed

theorem invalid_provider_exits_2_witness:
  "\<not> flag_version (exampleFlags\<lparr>flag_provider := ''foo''\<rparr>) \<and>
   fst (resolveProvider exampleEnv (exampleFlags\<lparr>flag_provider := ''foo''\<rparr>) exampleWorld) =
     Return ''foo'' \<and>
   ''foo'' \<notin> set validProviders \<and>
   fst (main exampleEnv (exampleFlags\<lparr>flag_provider := ''foo''\<rparr>) exampleWorld) = Exit 2 \<and>
   \<not> list_ex (\<lambda>ev. isFetch ev \<or> isFileOp ev \<or> isStoreOp ev)
      (since exampleWorld
         (snd (main exampleEnv (exampleFlags\<lparr>flag_provider := ''foo''\<rparr>) exampleWorld))) \<and>
   files (snd (main exampleEnv (exampleFlags\<lparr>flag_provider := ''foo''\<rparr>) exampleWorld)) =
     files exampleWorld \<and>
   stores (snd (main exampleEnv (exampleFlags\<lparr>flag_provider := ''foo''\<rparr>) exampleWorld)) =
     stores exampleWorld"
proof -
  have h1: "\<not> flag_version (exampleFlags\<lparr>flag_provider := ''foo''\<rparr>)"
    by (simp add: exampleFlags_def)
  have h2: "fst (resolveProvider exampleEnv (exampleFlags\<lparr>flag_provider := ''foo''\<rparr>) exampleWorld) =
     Return ''foo''"
    by (simp add: resolveProvider_def exampleFlags_def)
  have h3: "''foo'' \<notin> set validProviders"
    by (simp add: validProviders_def)
  from invalid_provider_exits_2 [OF h1 h2 h3] h1 h2 h3 show ?thesis by blast
qed

text \<open>
  Claim C10: for a provider that is one of \<open>azure\<close>, \<open>ec2\<close>, \<open>gce\<close> and \<open>packet\<close>,
  \<open>fetchMetadata\<close> returns and does not come to its \<open>panic("bad provider")\<close>; \<open>main\<close> calls
  it after its validation only, so no run of \<open>main\<close> ends in a panic.
\<close>

theorem fetchMetadata_never_panics:
  "(provider \<in> set validProviders \<longrightarrow> (\<exists>r. fst (fetchMetadata e provider w) = Return r)) \<and>
   (\<forall>msg. fst (main e fl w) \<noteq> Panic msg)"
proof (intro conjI impI allI)
  assume "provider \<in> set validProviders"
  then show "\<exists>r. fst (fetchMetadata e provider w) = Return r"
    by (rule fetchMetadata_valid)
next
  fix msg
  show "fst (main e fl w) \<noteq> Panic msg"
  proof (cases "flag_version fl")
    case True
    then show ?thesis by (simp add: main_def)
  next
    case False
    obtain o1 w1 where r: "resolveProvider e fl w = (o1, w1)"
      by (cases "resolveProvider e fl w")
    show ?thesis
    proof (cases o1)
      case (Return provider)
      show ?thesis
      proof (cases "provider \<in> set validProviders")
        case True
        from fetchMetadata_valid[OF True, of e w1]
        obtain x where "fst (fetchMetadata e provider w1) = Return x" by blast
        then obtain w2 where f: "fetchMetadata e provider w1 = (Return x, w2)"
          by (cases "fetchMetadata e provider w1") simp
        show ?thesis
        proof (cases x)
          case (Inl err)
          with False r Return True f show ?thesis by (simp add: main_def)
        next
          case (Inr metadata)
          obtain o3 md3 w3
            where a: "writeMetadataAttributes e (flag_attributes fl) metadata w2 = (o3, md3, w3)"
            by (cases "writeMetadataAttributes e (flag_attributes fl) metadata w2")
          with writeMetadataAttributes_no_panic[of e "flag_attributes fl" metadata w2]
          have np: "\<And>m. o3 \<noteq> Panic m"
            by simp
          with False r Return True f Inr a show ?thesis
            by (cases o3) (auto simp: main_def split: option.splits prod.splits)
        qed
      next
        case invalid: False
        with False r Return show ?thesis by (simp add: main_def)
      qed
    next
      case (Exit n)
      with False r show ?thesis by (simp add: main_def)
    next
      case (Panic m)
      with resolveProvider_no_panic[of e fl w m] r show ?thesis by simp
    qed
  qed
qed

theorem fetchMetadata_never_panics_witness:
  "''ec2'' \<in> set validProviders \<and>
   (\<exists>r. fst (fetchMetadata exampleEnv ''ec2'' exampleWorld) = Return r) \<and>
   fst (main exampleEnv exampleFlags exampleWorld) \<noteq> Panic ''bad provider''"
proof -
  have h: "''ec2'' \<in> set validProviders"
    by (simp add: validProviders_def)
  from h fetchMetadata_never_panics [of "''ec2''" exampleEnv exampleWorld exampleFlags]
  show ?thesis by blast
qed

subsection \<open>The attribute file\<close>

text \<open>
  Claim C7: with the empty path, \<open>writeMetadataAttributes\<close> returns \<open>nil\<close> and leaves the
  world as it is, whatever the metadata: no directory or file is made, nothing is
  written, and the trace has no new event.
\<close>

theorem writeMetadataAttributes_unset_path:
  "writeMetadataAttributes e [] metadata w = (Return None, metadata, w)"
  by (simp add: writeMetadataAttributes_def)

subsection \<open>The metadata\<close>

text \<open>
  Claim C9: after \<open>writeMetadataAttributes\<close> and after \<open>writeMetadataKeys\<close>, whether they
  return \<open>nil\<close>, return an error or end the process, the metadata is what it was before
  the call.
\<close>

theorem metadata_not_mutated:
  "attributesMetadata e attributes metadata w = metadata \<and>
   keysMetadata e username metadata w = metadata"
  by (simp add: attributesMetadata_def keysMetadata_def writeMetadataAttributes_def
      writeMetadataKeys_def Let_def split: prod.splits option.splits sum.splits)

subsection \<open>The attribute writer and the stores\<close>

lemma Write_frame:
  "stores (snd (Write e out s w)) = stores w"
  "trace (snd (Write e out s w)) = trace w @ [EvWrite out s]"
  by (simp_all add: Write_def appendFile_def split: option.splits prod.splits)

lemma writeVariables_frame:
  "stores (snd (writeVariables e out m ks w)) = stores w \<and>
   (\<exists>evs. trace (snd (writeVariables e out m ks w)) = trace w @ evs \<and> \<not> list_ex isStoreOp evs)"
proof (induction ks arbitrary: w)
  case Nil
  show ?case by simp
next
  case (Cons k ks)
  show ?case
  proof (cases "m k")
    case None
    with Cons show ?thesis by simp
  next
    case (Some v)
    show ?thesis
    proof (cases "v = []")
      case True
      with Some Cons show ?thesis by (simp add: writeVariable_def)
    next
      case False
      obtain r w' where wr: "Write e out (attributeLine k v) w = (r, w')"
        by (cases "Write e out (attributeLine k v) w")
      with Write_frame[of e out "attributeLine k v" w]
      have s: "stores w' = stores w" and t: "trace w' = trace w @ [EvWrite out (attributeLine k v)]"
        by simp_all
      show ?thesis
      proof (cases r)
        case None
        from Cons[of w'] obtain evs where
          "stores (snd (writeVariables e out m ks w')) = stores w'"
          "trace (snd (writeVariables e out m ks w')) = trace w' @ evs" "\<not> list_ex isStoreOp evs"
          by blast
        with s t have "stores (snd (writeVariables e out m ks w')) = stores w \<and>
           trace (snd (writeVariables e out m ks w')) = trace w @ (EvWrite out (attributeLine k v) # evs) \<and>
           \<not> list_ex isStoreOp (EvWrite out (attributeLine k v) # evs)"
          by simp
        with \<open>m k = Some v\<close> False wr None show ?thesis
          by (auto simp: writeVariable_def)
      next
        case (Some err)
        have "\<not> list_ex isStoreOp [EvWrite out (attributeLine k v)]" by simp
        with \<open>m k = Some v\<close> False wr Some s t show ?thesis
          by (simp add: writeVariable_def)
      qed
    qed
  qed
qed

lemma writeMetadataAttributes_frame:
  "stores (attributesWorld e a md w) = stores w \<and>
   (\<exists>evs. trace (attributesWorld e a md w) = trace w @ evs \<and> \<not> list_ex isStoreOp evs)"
proof (cases "a = []")
  case True
  then show ?thesis by (simp add: attributesWorld_def writeMetadataAttributes_def)
next
  case False
  show ?thesis
  proof (cases "mkdirAllErr e (path_Dir e a)")
    case (Some err)
    have "\<not> list_ex isStoreOp [EvMkdirAll (path_Dir e a) (7 * 64 + 5 * 8 + 5),
        EvStderr (''failed to create directory: %v'' @ LF) [AErr err]]" by simp
    with False Some show ?thesis
      by (simp add: attributesWorld_def writeMetadataAttributes_def MkdirAll_def Eprintf_def)
  next
    case None
    show ?thesis
    proof (cases "createErr e a")
      case (Some err)
      have "\<not> list_ex isStoreOp [EvMkdirAll (path_Dir e a) (7 * 64 + 5 * 8 + 5), EvCreate a,
        EvStderr (''failed to create file: %v'' @ LF) [AErr err]]" by simp
      with False None Some show ?thesis
        by (simp add: attributesWorld_def writeMetadataAttributes_def MkdirAll_def Create_def Eprintf_def)
    next
      case cn: None
      let ?w2 = "emit (EvCreate a) (emit (EvMkdirAll (path_Dir e a) (7 * 64 + 5 * 8 + 5)) w
                  \<lparr>files := (files (emit (EvMkdirAll (path_Dir e a) (7 * 64 + 5 * 8 + 5)) w))(a \<mapsto> [])\<rparr>)"
      obtain r w3 where wv:
        "writeVariables e a (Attributes md) (rangeOrder e (Attributes md)) ?w2 = (r, w3)"
        by (cases "writeVariables e a (Attributes md) (rangeOrder e (Attributes md)) ?w2")
      with writeVariables_frame[of e a "Attributes md" "rangeOrder e (Attributes md)" ?w2]
      obtain evs where s: "stores w3 = stores ?w2" and t: "trace w3 = trace ?w2 @ evs"
        and n: "\<not> list_ex isStoreOp evs" by auto
      from n have n': "\<not> list_ex isStoreOp
         (EvMkdirAll (path_Dir e a) (7 * 64 + 5 * 8 + 5) # EvCreate a # evs @ [EvClose a])"
        by simp
      have w': "attributesWorld e a md w = Close a w3"
        using False None cn wv
        by (simp add: attributesWorld_def writeMetadataAttributes_def MkdirAll_def Create_def)
      from s t have "stores (Close a w3) = stores w"
        "trace (Close a w3) = trace w @
           (EvMkdirAll (path_Dir e a) (7 * 64 + 5 * 8 + 5) # EvCreate a # evs @ [EvClose a])"
        by (simp_all add: Close_def)
      with n' w' show ?thesis by metis
    qed
  qed
qed

lemma writeMetadataAttributes_exit:
  "fst (writeMetadataAttributes e a md w) = Exit n \<Longrightarrow> n = 1"
  by (simp add: writeMetadataAttributes_def MkdirAll_def Create_def
      split: if_splits prod.splits option.splits)

lemma writeMetadataAttributes_metadata:
  "fst (snd (writeMetadataAttributes e a md w)) = md"
  by (simp add: writeMetadataAttributes_def split: prod.splits option.splits)

lemma fetchMetadata_world:
  "provider \<in> set validProviders \<Longrightarrow> snd (fetchMetadata e provider w) = emit (EvFetch provider) w"
  by (auto simp: validProviders_def fetchMetadata_def)

lemma writeMetadataKeys_unknown_user:
  assumes "username \<noteq> []" and "SshKeys metadata \<noteq> None" and "lookupRes e username = Inl err"
  shows "writeMetadataKeys e username metadata w =
      (Some (Errorf ''unable to lookup user %q: %v'' [AStr username, AErr err]), metadata,
       emit (EvLookup username) w)"
  using assms by (simp add: writeMetadataKeys_def Lookup_def)


subsection \<open>The key installer\<close>

lemma writeMetadataKeys_guard:
  "username = [] \<or> SshKeys metadata = None \<Longrightarrow>
     writeMetadataKeys e username metadata w = (None, metadata, w)"
  by (auto simp: writeMetadataKeys_def)

lemma writeMetadataKeys_lookup_fails:
  "username \<noteq> [] \<Longrightarrow> SshKeys metadata \<noteq> None \<Longrightarrow> lookupRes e username = Inl err \<Longrightarrow>
     keysResult e username metadata w \<noteq> None"
  by (simp add: keysResult_def writeMetadataKeys_def Lookup_def)

lemma writeMetadataKeys_open_fails:
  "username \<noteq> [] \<Longrightarrow> SshKeys metadata \<noteq> None \<Longrightarrow> lookupRes e username = Inr usr \<Longrightarrow>
     akdOpenErr e usr = Some err \<Longrightarrow>
     writeMetadataKeys e username metadata w =
       (Some err, metadata, emit (EvAkdOpen usr True) (emit (EvLookup username) w))"
  by (simp add: writeMetadataKeys_def Lookup_def akdOpen_def)

lemma writeMetadataKeys_add_fails:
  "username \<noteq> [] \<Longrightarrow> SshKeys metadata = Some keys \<Longrightarrow> lookupRes e username = Inr usr \<Longrightarrow>
     akdOpenErr e usr = None \<Longrightarrow> akdAddErr e usr ''coreos-metadata'' (Join keys LF) = Some err \<Longrightarrow>
     keysResult e username metadata w = Some err \<and>
     since w (keysWorld e username metadata w) =
       [EvLookup username, EvAkdOpen usr True,
        EvAkdAdd usr ''coreos-metadata'' (Join keys LF) True True, EvAkdClose usr]"
  by (simp add: keysResult_def keysWorld_def writeMetadataKeys_def Lookup_def akdOpen_def
      akdAdd_def akdClose_def since_def Let_def)

lemma writeMetadataKeys_added:
  "username \<noteq> [] \<Longrightarrow> SshKeys metadata = Some keys \<Longrightarrow> lookupRes e username = Inr usr \<Longrightarrow>
     akdOpenErr e usr = None \<Longrightarrow> akdAddErr e usr ''coreos-metadata'' (Join keys LF) = None \<Longrightarrow>
     keysResult e username metadata w = akdSyncErr e usr \<and>
     since w (keysWorld e username metadata w) =
       [EvLookup username, EvAkdOpen usr True,
        EvAkdAdd usr ''coreos-metadata'' (Join keys LF) True True, EvAkdSync usr, EvAkdClose usr] \<and>
     (\<exists>b. stores (keysWorld e username metadata w) usr = Some b \<and>
          b ''coreos-metadata'' = Some (Join keys LF))"
  by (simp add: keysResult_def keysWorld_def writeMetadataKeys_def Lookup_def akdOpen_def
      akdAdd_def akdSync_def akdClose_def since_def Let_def)

lemma writeMetadataKeys_lookup_fails_trace:
  "username \<noteq> [] \<Longrightarrow> SshKeys metadata \<noteq> None \<Longrightarrow> lookupRes e username = Inl err \<Longrightarrow>
     since w (keysWorld e username metadata w) = [EvLookup username]"
  by (simp add: keysWorld_def writeMetadataKeys_def Lookup_def since_def)

lemma writeMetadataKeys_open_fails_trace:
  "username \<noteq> [] \<Longrightarrow> SshKeys metadata \<noteq> None \<Longrightarrow> lookupRes e username = Inr usr \<Longrightarrow>
     akdOpenErr e usr = Some err \<Longrightarrow>
     since w (keysWorld e username metadata w) = [EvLookup username, EvAkdOpen usr True]"
  by (simp add: keysWorld_def writeMetadataKeys_open_fails since_def)

lemma writeMetadataKeys_store_op:
  assumes "username \<noteq> []" and "SshKeys metadata = Some keys" and "lookupRes e username = Inr usr"
  shows "take 2 (since w (keysWorld e username metadata w)) = [EvLookup username, EvAkdOpen usr True]"
proof (cases "akdOpenErr e usr")
  case (Some err)
  with assms show ?thesis by (simp add: writeMetadataKeys_open_fails_trace)
next
  case None
  show ?thesis
  proof (cases "akdAddErr e usr ''coreos-metadata'' (Join keys LF)")
    case (Some err)
    with None assms show ?thesis by (simp add: writeMetadataKeys_add_fails)
  next
    case n: None
    with None assms show ?thesis by (simp add: writeMetadataKeys_added)
  qed
qed

lemma writeMetadataKeys_add_op:
  assumes "username \<noteq> []" and "SshKeys metadata = Some keys" and "lookupRes e username = Inr usr"
    and "akdOpenErr e usr = None"
  shows "take 3 (since w (keysWorld e username metadata w)) =
     [EvLookup username, EvAkdOpen usr True, EvAkdAdd usr ''coreos-metadata'' (Join keys LF) True True]"
proof (cases "akdAddErr e usr ''coreos-metadata'' (Join keys LF)")
  case (Some err)
  with assms show ?thesis by (simp add: writeMetadataKeys_add_fails)
next
  case None
  with assms show ?thesis by (simp add: writeMetadataKeys_added)
qed

lemma writeMetadataKeys_lookup_op:
  assumes "username \<noteq> []" and "SshKeys metadata = Some keys"
  shows "take 1 (since w (keysWorld e username metadata w)) = [EvLookup username]"
proof (cases "lookupRes e username")
  case (Inl err)
  with assms show ?thesis by (simp add: writeMetadataKeys_lookup_fails_trace)
next
  case (Inr usr)
  from writeMetadataKeys_store_op[OF assms Inr, of w]
  have "take 1 (take 2 (since w (keysWorld e username metadata w))) = [EvLookup username]"
    by simp
  then show ?thesis by (simp add: min_def)
qed


text \<open>
  Claim C3: \<open>writeMetadataKeys\<close> returns \<open>nil\<close> with no operation on a store exactly when
  the user name is empty or the keys are \<open>nil\<close>, and then it leaves the world as it is.
  With a user name and an empty list of keys that is not \<open>nil\<close>, it looks the user up;
  when the user is found it opens the user's store, creating it if needed; when the
  store opens it adds the block \<open>coreos-metadata\<close> with empty content, replacing; and when
  that succeeds the block of the store is empty, the store is synced and closed, and the
  result is that of the sync.
\<close>

theorem writeMetadataKeys_noop_iff:
  "((keysResult e username metadata w = None \<and>
     \<not> list_ex isStoreOp (since w (keysWorld e username metadata w)))
      \<longleftrightarrow> (username = [] \<or> SshKeys metadata = None)) \<and>
   (username = [] \<or> SshKeys metadata = None \<longrightarrow> keysWorld e username metadata w = w) \<and>
   (username \<noteq> [] \<and> SshKeys metadata = Some [] \<longrightarrow>
      take 1 (since w (keysWorld e username metadata w)) = [EvLookup username]) \<and>
   (username \<noteq> [] \<and> SshKeys metadata = Some [] \<and> lookupRes e username = Inr usr \<longrightarrow>
      take 2 (since w (keysWorld e username metadata w)) =
        [EvLookup username, EvAkdOpen usr True]) \<and>
   (username \<noteq> [] \<and> SshKeys metadata = Some [] \<and> lookupRes e username = Inr usr \<and>
    akdOpenErr e usr = None \<longrightarrow>
      take 3 (since w (keysWorld e username metadata w)) =
        [EvLookup username, EvAkdOpen usr True, EvAkdAdd usr ''coreos-metadata'' [] True True]) \<and>
   (username \<noteq> [] \<and> SshKeys metadata = Some [] \<and> lookupRes e username = Inr usr \<and>
    akdOpenErr e usr = None \<and> akdAddErr e usr ''coreos-metadata'' [] = None \<longrightarrow>
      keysResult e username metadata w = akdSyncErr e usr \<and>
      since w (keysWorld e username metadata w) =
        [EvLookup username, EvAkdOpen usr True, EvAkdAdd usr ''coreos-metadata'' [] True True,
         EvAkdSync usr, EvAkdClose usr] \<and>
      (\<exists>b. stores (keysWorld e username metadata w) usr = Some b \<and>
           b ''coreos-metadata'' = Some []))"
proof (intro conjI)
  show "(keysResult e username metadata w = None \<and>
     \<not> list_ex isStoreOp (since w (keysWorld e username metadata w)))
      \<longleftrightarrow> (username = [] \<or> SshKeys metadata = None)"
  proof
    assume "username = [] \<or> SshKeys metadata = None"
    then have "writeMetadataKeys e username metadata w = (None, metadata, w)"
      by (rule writeMetadataKeys_guard)
    then show "keysResult e username metadata w = None \<and>
     \<not> list_ex isStoreOp (since w (keysWorld e username metadata w))"
      by (simp add: keysResult_def keysWorld_def since_def)
  next
    assume a: "keysResult e username metadata w = None \<and>
     \<not> list_ex isStoreOp (since w (keysWorld e username metadata w))"
    show "username = [] \<or> SshKeys metadata = None"
    proof (rule ccontr)
      assume "\<not> (username = [] \<or> SshKeys metadata = None)"
      then obtain keys where u: "username \<noteq> []" and k: "SshKeys metadata = Some keys"
        by auto
      show False
      proof (cases "lookupRes e username")
        case (Inl err)
        with u k writeMetadataKeys_lookup_fails[of username metadata e err w] a
        show False by simp
      next
        case (Inr usr)
        have "EvAkdOpen usr True \<in> set (take 2 (since w (keysWorld e username metadata w)))"
          by (simp add: writeMetadataKeys_store_op[OF u k Inr])
        then have "EvAkdOpen usr True \<in> set (since w (keysWorld e username metadata w))"
          by (rule in_set_takeD)
        moreover have "isStoreOp (EvAkdOpen usr True)" by simp
        ultimately have "list_ex isStoreOp (since w (keysWorld e username metadata w))"
          unfolding list_ex_iff by blast
        with a show False by simp
      qed
    qed
  qed
next
  show "username = [] \<or> SshKeys metadata = None \<longrightarrow> keysWorld e username metadata w = w"
    by (simp add: keysWorld_def writeMetadataKeys_guard)
next
  show "username \<noteq> [] \<and> SshKeys metadata = Some [] \<longrightarrow>
      take 1 (since w (keysWorld e username metadata w)) = [EvLookup username]"
    using writeMetadataKeys_lookup_op[of username metadata "[]" w e] by blast
next
  show "username \<noteq> [] \<and> SshKeys metadata = Some [] \<and> lookupRes e username = Inr usr \<longrightarrow>
      take 2 (since w (keysWorld e username metadata w)) =
        [EvLookup username, EvAkdOpen usr True]"
    using writeMetadataKeys_store_op[of username metadata "[]" e usr w] by blast
next
  show "username \<noteq> [] \<and> SshKeys metadata = Some [] \<and> lookupRes e username = Inr usr \<and>
    akdOpenErr e usr = None \<longrightarrow>
      take 3 (since w (keysWorld e username metadata w)) =
        [EvLookup username, EvAkdOpen usr True, EvAkdAdd usr ''coreos-metadata'' [] True True]"
    using writeMetadataKeys_add_op[of username metadata "[]" e usr w] by simp
next
  show "username \<noteq> [] \<and> SshKeys metadata = Some [] \<and> lookupRes e username = Inr usr \<and>
    akdOpenErr e usr = None \<and> akdAddErr e usr ''coreos-metadata'' [] = None \<longrightarrow>
      keysResult e username metadata w = akdSyncErr e usr \<and>
      since w (keysWorld e username metadata w) =
        [EvLookup username, EvAkdOpen usr True, EvAkdAdd usr ''coreos-metadata'' [] True True,
         EvAkdSync usr, EvAkdClose usr] \<and>
      (\<exists>b. stores (keysWorld e username metadata w) usr = Some b \<and>
           b ''coreos-metadata'' = Some [])"
    using writeMetadataKeys_added[of username metadata "[]" e usr w] by simp
qed

theorem writeMetadataKeys_noop_iff_witness:
  "''core'' \<noteq> [] \<and> SshKeys exampleMetadata = Some [] \<and>
   lookupRes exampleEnv ''core'' = Inr coreUser \<and> akdOpenErr exampleEnv coreUser = None \<and>
   akdAddErr exampleEnv coreUser ''coreos-metadata'' [] = None \<and>
   stores exampleWorld coreUser = Some [''coreos-metadata'' \<mapsto> ''ssh-rsa AAAA old''] \<and>
   keysResult exampleEnv ''core'' exampleMetadata exampleWorld = None \<and>
   since exampleWorld (keysWorld exampleEnv ''core'' exampleMetadata exampleWorld) =
     [EvLookup ''core'', EvAkdOpen coreUser True,
      EvAkdAdd coreUser ''coreos-metadata'' [] True True, EvAkdSync coreUser, EvAkdClose coreUser] \<and>
   (\<exists>b. stores (keysWorld exampleEnv ''core'' exampleMetadata exampleWorld) coreUser = Some b \<and>
        b ''coreos-metadata'' = Some []) \<and>
   SshKeys (exampleMetadata\<lparr>SshKeys := None\<rparr>) = None \<and>
   keysResult exampleEnv ''core'' (exampleMetadata\<lparr>SshKeys := None\<rparr>) exampleWorld = None \<and>
   keysWorld exampleEnv ''core'' (exampleMetadata\<lparr>SshKeys := None\<rparr>) exampleWorld = exampleWorld"
proof -
  have h1: "''core'' \<noteq> []" by simp
  have h2: "SshKeys exampleMetadata = Some []"
    by (simp add: exampleMetadata_def)
  have h3: "lookupRes exampleEnv ''core'' = Inr coreUser"
    by (simp add: exampleEnv_def)
  have h4: "akdOpenErr exampleEnv coreUser = None"
    by (simp add: exampleEnv_def)
  have h5: "akdAddErr exampleEnv coreUser ''coreos-metadata'' [] = None"
    by (simp add: exampleEnv_def)
  have h6: "akdSyncErr exampleEnv coreUser = None"
    by (simp add: exampleEnv_def)
  have h7: "stores exampleWorld coreUser = Some [''coreos-metadata'' \<mapsto> ''ssh-rsa AAAA old'']"
    by (simp add: exampleWorld_def)
  have h8: "SshKeys (exampleMetadata\<lparr>SshKeys := None\<rparr>) = None" by simp
  note on = writeMetadataKeys_noop_iff
    [of exampleEnv "''core''" exampleMetadata exampleWorld coreUser]
  note off = writeMetadataKeys_noop_iff
    [of exampleEnv "''core''" "exampleMetadata\<lparr>SshKeys := None\<rparr>" exampleWorld coreUser]
  from on h1 h2 h3 h4 h5 h6
  have a: "keysResult exampleEnv ''core'' exampleMetadata exampleWorld = None"
    by simp
  from on h1 h2 h3 h4 h5
  have b: "since exampleWorld (keysWorld exampleEnv ''core'' exampleMetadata exampleWorld) =
     [EvLookup ''core'', EvAkdOpen coreUser True,
      EvAkdAdd coreUser ''coreos-metadata'' [] True True, EvAkdSync coreUser, EvAkdClose coreUser]"
    by blast
  from on h1 h2 h3 h4 h5
  have c: "\<exists>b. stores (keysWorld exampleEnv ''core'' exampleMetadata exampleWorld) coreUser = Some b \<and>
        b ''coreos-metadata'' = Some []"
    by blast
  from off h8
  have d: "keysResult exampleEnv ''core'' (exampleMetadata\<lparr>SshKeys := None\<rparr>) exampleWorld = None"
    by blast
  from off h8
  have e: "keysWorld exampleEnv ''core'' (exampleMetadata\<lparr>SshKeys := None\<rparr>) exampleWorld = exampleWorld"
    by blast
  from h1 h2 h3 h4 h5 h7 h8 a b c d e show ?thesis by blast
qed


text \<open>
  Claim C8: with a user name, keys that are not \<open>nil\<close> and a user that the lookup does
  not find, \<open>writeMetadataKeys\<close> returns the error \<open>unable to lookup user %q: %v\<close> made of
  the user name and the error of the lookup, and the lookup is its only call. A run of
  \<open>main\<close> that has fetched such metadata for this \<open>--ssh-keys\<close> user exits with code 1
  without any operation on a store; when the attributes were written the last line on
  standard error is \<open>failed to write metadata keys: %v\<close> with that error.
\<close>

theorem unknown_user_fails:
  assumes "username \<noteq> []" and "SshKeys metadata \<noteq> None" and "lookupRes e username = Inl err"
  shows "writeMetadataKeys e username metadata w =
      (Some (Errorf ''unable to lookup user %q: %v'' [AStr username, AErr err]), metadata,
       emit (EvLookup username) w) \<and>
    (\<not> flag_version fl \<and> flag_sshKeys fl = username \<and>
     fst (resolveProvider e fl w0) = Return provider \<and> provider \<in> set validProviders \<and>
     fst (fetchMetadata e provider (snd (resolveProvider e fl w0))) = Return (Inr metadata)
     \<longrightarrow> fst (main e fl w0) = Exit 1 \<and>
         \<not> list_ex isStoreOp (since w0 (snd (main e fl w0))) \<and>
         stores (snd (main e fl w0)) = stores w0 \<and>
         (attributesResult e (flag_attributes fl) metadata
            (snd (fetchMetadata e provider (snd (resolveProvider e fl w0)))) = Return None
          \<longrightarrow> last (trace (snd (main e fl w0))) =
                EvStderr (''failed to write metadata keys: %v'' @ LF)
                  [AErr (Errorf ''unable to lookup user %q: %v'' [AStr username, AErr err])]))"
proof (intro conjI impI)
  show "writeMetadataKeys e username metadata w =
      (Some (Errorf ''unable to lookup user %q: %v'' [AStr username, AErr err]), metadata,
       emit (EvLookup username) w)"
    using assms by (rule writeMetadataKeys_unknown_user)
next
  assume h: "\<not> flag_version fl \<and> flag_sshKeys fl = username \<and>
     fst (resolveProvider e fl w0) = Return provider \<and> provider \<in> set validProviders \<and>
     fst (fetchMetadata e provider (snd (resolveProvider e fl w0))) = Return (Inr metadata)"
  define w1 where "w1 = snd (resolveProvider e fl w0)"
  define w2 where "w2 = emit (EvFetch provider) w1"
  define kerr where "kerr = Errorf ''unable to lookup user %q: %v'' [AStr username, AErr err]"
  from h have r: "resolveProvider e fl w0 = (Return provider, w1)"
    by (cases "resolveProvider e fl w0") (simp add: w1_def)
  from h fetchMetadata_world[of provider e w1]
  have f: "fetchMetadata e provider w1 = (Return (Inr metadata), w2)"
    by (cases "fetchMetadata e provider w1") (simp add: w1_def w2_def)
  obtain o3 md3 w3 where a: "writeMetadataAttributes e (flag_attributes fl) metadata w2 = (o3, md3, w3)"
    by (cases "writeMetadataAttributes e (flag_attributes fl) metadata w2")
  from a writeMetadataAttributes_metadata[of e "flag_attributes fl" metadata w2]
  have md3: "md3 = metadata" by simp
  from a writeMetadataAttributes_frame[of e "flag_attributes fl" metadata w2]
  obtain evs where s3: "stores w3 = stores w2" and t3: "trace w3 = trace w2 @ evs"
    and n3: "\<not> list_ex isStoreOp evs"
    by (auto simp: attributesWorld_def)
  from h resolveProvider_frame[of e fl w0 provider]
  have s1: "stores w1 = stores w0"
    and t1: "trace w1 = trace w0 \<or> trace w1 = trace w0 @ [EvReadFile cmdlinePath]"
    by (simp_all add: w1_def)
  from t1 obtain evs1 where t1': "trace w1 = trace w0 @ evs1" and n1: "\<not> list_ex isStoreOp evs1"
    by auto
  have k: "writeMetadataKeys e username metadata w3 = (Some kerr, metadata, emit (EvLookup username) w3)"
    unfolding kerr_def using assms by (rule writeMetadataKeys_unknown_user)
  have base: "\<not> list_ex isStoreOp (evs1 @ EvFetch provider # evs)"
    using n1 n3 by simp
  have t3': "trace w3 = trace w0 @ (evs1 @ EvFetch provider # evs)"
    using t3 t1' by (simp add: w2_def)
  have s3': "stores w3 = stores w0"
    using s3 s1 by (simp add: w2_def)
  have main_cases:
    "(\<exists>msg args. main e fl w0 = (Exit 1, Eprintf msg args w3)) \<or>
     main e fl w0 = (Exit 1, w3) \<or>
     (o3 = Return None \<and>
      main e fl w0 = (Exit 1, Eprintf (''failed to write metadata keys: %v'' @ LF) [AErr kerr]
        (emit (EvLookup username) w3)))"
  proof (cases o3)
    case (Return x)
    show ?thesis
    proof (cases x)
      case None
      with Return h r f a md3 k show ?thesis by (simp add: main_def)
    next
      case (Some werr)
      with Return h r f a
      have "main e fl w0 =
        (Exit 1, Eprintf (''failed to write metadata attributes: %v'' @ LF) [AErr werr] w3)"
        by (simp add: main_def)
      then show ?thesis by blast
    qed
  next
    case (Exit n)
    with a writeMetadataAttributes_exit[of e "flag_attributes fl" metadata w2 n]
    have "n = 1" by simp
    with Exit h r f a show ?thesis by (simp add: main_def)
  next
    case (Panic msg)
    with a writeMetadataAttributes_no_panic[of e "flag_attributes fl" metadata w2 msg]
    show ?thesis by simp
  qed
  have concl: "fst (main e fl w0) = Exit 1 \<and>
         \<not> list_ex isStoreOp (since w0 (snd (main e fl w0))) \<and>
         stores (snd (main e fl w0)) = stores w0"
    using main_cases
  proof (elim disjE exE conjE)
    fix msg args
    assume m: "main e fl w0 = (Exit 1, Eprintf msg args w3)"
    have "since w0 (Eprintf msg args w3) = (evs1 @ EvFetch provider # evs) @ [EvStderr msg args]"
      by (simp add: since_def Eprintf_def t3')
    with base m s3' show ?thesis by (simp add: Eprintf_def)
  next
    assume m: "main e fl w0 = (Exit 1, w3)"
    have "since w0 w3 = evs1 @ EvFetch provider # evs"
      by (simp add: since_def t3')
    with base m s3' show ?thesis by simp
  next
    assume m: "main e fl w0 = (Exit 1, Eprintf (''failed to write metadata keys: %v'' @ LF)
        [AErr kerr] (emit (EvLookup username) w3))"
    have "since w0 (Eprintf (''failed to write metadata keys: %v'' @ LF)
        [AErr kerr] (emit (EvLookup username) w3)) =
        (evs1 @ EvFetch provider # evs) @
        [EvLookup username, EvStderr (''failed to write metadata keys: %v'' @ LF) [AErr kerr]]"
      by (simp add: since_def Eprintf_def t3')
    with base m s3' show ?thesis by (simp add: Eprintf_def)
  qed
  from concl show "fst (main e fl w0) = Exit 1" by simp
  from concl show "\<not> list_ex isStoreOp (since w0 (snd (main e fl w0)))" by simp
  from concl show "stores (snd (main e fl w0)) = stores w0" by simp
  assume ok: "attributesResult e (flag_attributes fl) metadata
            (snd (fetchMetadata e provider (snd (resolveProvider e fl w0)))) = Return None"
  with f a have "o3 = Return None"
    by (simp add: attributesResult_def w1_def)
  with h r f a md3 k
  have "main e fl w0 = (Exit 1, Eprintf (''failed to write metadata keys: %v'' @ LF) [AErr kerr]
        (emit (EvLookup username) w3))"
    by (simp add: main_def)
  then show "last (trace (snd (main e fl w0))) =
                EvStderr (''failed to write metadata keys: %v'' @ LF)
                  [AErr (Errorf ''unable to lookup user %q: %v'' [AStr username, AErr err])]"
    by (simp add: Eprintf_def kerr_def)
qed

theorem unknown_user_fails_witness:
  "''ghost'' \<noteq> [] \<and> SshKeys exampleMetadata \<noteq> None \<and>
   lookupRes exampleEnv ''ghost'' = Inl (External ''user: unknown user'') \<and>
   \<not> flag_version ghostFlags \<and> flag_sshKeys ghostFlags = ''ghost'' \<and>
   fst (resolveProvider exampleEnv ghostFlags exampleWorld) = Return ''ec2'' \<and>
   ''ec2'' \<in> set validProviders \<and>
   fst (fetchMetadata exampleEnv ''ec2'' (snd (resolveProvider exampleEnv ghostFlags exampleWorld))) =
     Return (Inr exampleMetadata) \<and>
   attributesResult exampleEnv (flag_attributes ghostFlags) exampleMetadata
     (snd (fetchMetadata exampleEnv ''ec2'' (snd (resolveProvider exampleEnv ghostFlags exampleWorld)))) =
     Return None \<and>
   fst (writeMetadataKeys exampleEnv ''ghost'' exampleMetadata exampleWorld) =
     Some (Errorf ''unable to lookup user %q: %v''
             [AStr ''ghost'', AErr (External ''user: unknown user'')]) \<and>
   fst (main exampleEnv ghostFlags exampleWorld) = Exit 1 \<and>
   \<not> list_ex isStoreOp (since exampleWorld (snd (main exampleEnv ghostFlags exampleWorld))) \<and>
   stores (snd (main exampleEnv ghostFlags exampleWorld)) = stores exampleWorld \<and>
   last (trace (snd (main exampleEnv ghostFlags exampleWorld))) =
     EvStderr (''failed to write metadata keys: %v'' @ LF)
       [AErr (Errorf ''unable to lookup user %q: %v''
                [AStr ''ghost'', AErr (External ''user: unknown user'')])]"
proof -
  have h1: "''ghost'' \<noteq> []" by simp
  have h2: "SshKeys exampleMetadata \<noteq> None"
    by (simp add: exampleMetadata_def)
  have h3: "lookupRes exampleEnv ''ghost'' = Inl (External ''user: unknown user'')"
    by (simp add: exampleEnv_def)
  have h4: "\<not> flag_version ghostFlags"
    by (simp add: ghostFlags_def exampleFlags_def)
  have h5: "flag_sshKeys ghostFlags = ''ghost''"
    by (simp add: ghostFlags_def)
  have h6: "fst (resolveProvider exampleEnv ghostFlags exampleWorld) = Return ''ec2''"
    by (simp add: resolveProvider_def ghostFlags_def exampleFlags_def)
  have h7: "''ec2'' \<in> set validProviders"
    by (simp add: validProviders_def)
  have h8: "fst (fetchMetadata exampleEnv ''ec2''
      (snd (resolveProvider exampleEnv ghostFlags exampleWorld))) = Return (Inr exampleMetadata)"
    by (simp add: fetchMetadata_def exampleEnv_def)
  have h9: "attributesResult exampleEnv (flag_attributes ghostFlags) exampleMetadata
     (snd (fetchMetadata exampleEnv ''ec2'' (snd (resolveProvider exampleEnv ghostFlags exampleWorld)))) =
     Return None"
    by (simp add: attributesResult_def writeMetadataAttributes_def MkdirAll_def Create_def
        writeVariable_def Write_def ghostFlags_def exampleFlags_def exampleEnv_def
        exampleMetadata_def)
  note inst = unknown_user_fails [OF h1 h2 h3, of exampleWorld ghostFlags exampleWorld "''ec2''"]
  from inst
  have a: "fst (writeMetadataKeys exampleEnv ''ghost'' exampleMetadata exampleWorld) =
     Some (Errorf ''unable to lookup user %q: %v''
             [AStr ''ghost'', AErr (External ''user: unknown user'')])"
    by simp
  from inst h4 h5 h6 h7 h8 h9
  have b: "fst (main exampleEnv ghostFlags exampleWorld) = Exit 1 \<and>
   \<not> list_ex isStoreOp (since exampleWorld (snd (main exampleEnv ghostFlags exampleWorld))) \<and>
   stores (snd (main exampleEnv ghostFlags exampleWorld)) = stores exampleWorld \<and>
   last (trace (snd (main exampleEnv ghostFlags exampleWorld))) =
     EvStderr (''failed to write metadata keys: %v'' @ LF)
       [AErr (Errorf ''unable to lookup user %q: %v''
                [AStr ''ghost'', AErr (External ''user: unknown user'')])]"
    by blast
  from h1 h2 h3 h4 h5 h6 h7 h8 h9 a b show ?thesis by blast
qed

subsection \<open>The lines of the attribute file\<close>

lemma Write_ok:
  assumes "writeErr e out s = None" and "files w out = Some c"
  shows "fst (Write e out s w) = None"
    and "files (snd (Write e out s w)) = (files w)(out \<mapsto> c @ s)"
    and "trace (snd (Write e out s w)) = trace w @ [EvWrite out s]"
  using assms by (simp_all add: Write_def appendFile_def)

lemma writeVariables_ok:
  assumes "\<forall>s. writeErr e out s = None" and "files w out = Some c"
  shows "fst (writeVariables e out m ks w) = None \<and>
         files (snd (writeVariables e out m ks w)) =
           (files w)(out \<mapsto> c @ concat (map (lineOf m)
              (filter (\<lambda>k. case m k of None \<Rightarrow> False | Some v \<Rightarrow> v \<noteq> []) ks))) \<and>
         trace (snd (writeVariables e out m ks w)) =
           trace w @ map (\<lambda>k. EvWrite out (lineOf m k))
              (filter (\<lambda>k. case m k of None \<Rightarrow> False | Some v \<Rightarrow> v \<noteq> []) ks)"
  using assms(2)
proof (induction ks arbitrary: w c)
  case Nil
  then show ?case by (simp add: fun_upd_idem)
next
  case (Cons k ks)
  show ?case
  proof (cases "m k")
    case None
    with Cons show ?thesis by simp
  next
    case (Some v)
    show ?thesis
    proof (cases "v = []")
      case True
      with Some Cons show ?thesis by (simp add: writeVariable_def)
    next
      case False
      from assms(1) have we: "writeErr e out (attributeLine k v) = None" by simp
      obtain r w' where wr: "Write e out (attributeLine k v) w = (r, w')"
        by (cases "Write e out (attributeLine k v) w")
      with Write_ok[OF we Cons.prems]
      have r: "r = None" and f: "files w' = (files w)(out \<mapsto> c @ attributeLine k v)"
        and t: "trace w' = trace w @ [EvWrite out (attributeLine k v)]"
        by simp_all
      let ?P = "\<lambda>k. case m k of None \<Rightarrow> False | Some v \<Rightarrow> v \<noteq> []"
      from f have "files w' out = Some (c @ attributeLine k v)" by simp
      note ih = Cons.IH[OF this]
      have step: "writeVariables e out m (k # ks) w = writeVariables e out m ks w'"
        using Some False wr r by (simp add: writeVariable_def)
      have keep: "filter ?P (k # ks) = k # filter ?P ks" and line: "lineOf m k = attributeLine k v"
        using Some False by (simp_all add: lineOf_def)
      have g1: "fst (writeVariables e out m ks w') = None"
        by (rule ih[THEN conjunct1])
      have g2: "files (snd (writeVariables e out m ks w')) =
           (files w)(out \<mapsto> c @ concat (map (lineOf m) (k # filter ?P ks)))"
        unfolding ih[THEN conjunct2, THEN conjunct1] f by (simp add: line)
      have g3: "trace (snd (writeVariables e out m ks w')) =
           trace w @ map (\<lambda>k. EvWrite out (lineOf m k)) (k # filter ?P ks)"
        unfolding ih[THEN conjunct2, THEN conjunct2] t by (simp add: line)
      show ?thesis
        unfolding step keep by (intro conjI g1 g2 g3)
    qed
  qed
qed

lemma writeMetadataAttributes_ok:
  assumes "attributes \<noteq> []" and "fileWritable e attributes"
  shows "attributesResult e attributes metadata w = Return None \<and>
         files (attributesWorld e attributes metadata w) =
           (files w)(attributes \<mapsto> concat (attributeLines e (Attributes metadata))) \<and>
         since w (attributesWorld e attributes metadata w) =
           EvMkdirAll (path_Dir e attributes) (7 * 64 + 5 * 8 + 5) # EvCreate attributes #
           map (EvWrite attributes) (attributeLines e (Attributes metadata)) @ [EvClose attributes]"
proof -
  let ?w2 = "emit (EvCreate attributes)
     (emit (EvMkdirAll (path_Dir e attributes) (7 * 64 + 5 * 8 + 5)) w
        \<lparr>files := (files (emit (EvMkdirAll (path_Dir e attributes) (7 * 64 + 5 * 8 + 5)) w))
                   (attributes \<mapsto> [])\<rparr>)"
  from assms(2) have mk: "mkdirAllErr e (path_Dir e attributes) = None"
    and cr: "createErr e attributes = None" and wr: "\<forall>s. writeErr e attributes s = None"
    by (simp_all add: fileWritable_def)
  have c: "files ?w2 attributes = Some []" by simp
  obtain r w3 where wv: "writeVariables e attributes (Attributes metadata)
      (rangeOrder e (Attributes metadata)) ?w2 = (r, w3)"
    by (cases "writeVariables e attributes (Attributes metadata)
      (rangeOrder e (Attributes metadata)) ?w2")
  with writeVariables_ok[OF wr c, of "Attributes metadata" "rangeOrder e (Attributes metadata)"]
  have r: "r = None"
    and f: "files w3 = (files ?w2)(attributes \<mapsto> concat (attributeLines e (Attributes metadata)))"
    and t: "trace w3 = trace ?w2 @ map (EvWrite attributes) (attributeLines e (Attributes metadata))"
    by (simp_all add: attributeLines_def nonEmptyKeys_def comp_def)
  have m: "writeMetadataAttributes e attributes metadata w = (Return r, metadata, Close attributes w3)"
    using assms(1) mk cr wv
    by (simp add: writeMetadataAttributes_def MkdirAll_def Create_def)
  from m r f t show ?thesis
    by (simp add: attributesResult_def attributesWorld_def Close_def since_def)
qed

lemma distinct_pair:
  assumes "distinct xs" and "set xs = {a, b}" and "a \<noteq> b"
  shows "xs = [a, b] \<or> xs = [b, a]"
proof -
  from assms have "length xs = 2"
    by (metis distinct_card card_2_iff)
  then obtain x y where "xs = [x, y]"
    by (auto simp: length_Suc_conv numeral_2_eq_2)
  with assms show ?thesis by auto
qed

lemma nonEmptyKeys_distinct:
  "rangeVisitsAll e m \<Longrightarrow> distinct (nonEmptyKeys e m) \<and>
     set (nonEmptyKeys e m) = {k. \<exists>v. m k = Some v \<and> v \<noteq> []}"
  by (auto simp: rangeVisitsAll_def nonEmptyKeys_def split: option.splits)

lemma attributeLines_mset:
  assumes "rangeVisitsAll e1 m" and "rangeVisitsAll e2 m"
  shows "mset (attributeLines e1 m) = mset (attributeLines e2 m)"
proof -
  from assms have "mset (rangeOrder e1 m) = mset (rangeOrder e2 m)"
    by (simp add: rangeVisitsAll_def set_eq_iff_mset_eq_distinct[symmetric])
  then have "mset (nonEmptyKeys e1 m) = mset (nonEmptyKeys e2 m)"
    by (simp add: nonEmptyKeys_def mset_filter)
  then show ?thesis
    by (simp add: attributeLines_def)
qed


text \<open>
  Claim C4: when the path is set, the directory and the file can be made and no write
  fails, \<open>writeMetadataAttributes\<close> returns \<open>nil\<close> and the file holds the lines
  \<open>COREOS_<KEY>=<value>\<close> of the keys it wrote, one write for each: these keys are
  without repetition the keys of the map whose value is a non-empty string, so there is
  one line for each of them and none for a key with the empty value. For the map
  \<open>{A: x, B: "", C: y}\<close> the file holds the two lines \<open>COREOS_A=x\<close> and \<open>COREOS_C=y\<close>, in
  one order or the other, and no line for \<open>B\<close>.
\<close>

theorem attribute_lines:
  assumes "attributes \<noteq> []" and "fileWritable e attributes"
    and "rangeVisitsAll e (Attributes metadata)"
  shows "attributesResult e attributes metadata w = Return None \<and>
         files (attributesWorld e attributes metadata w) attributes =
           Some (concat (map (lineOf (Attributes metadata))
                   (nonEmptyKeys e (Attributes metadata)))) \<and>
         since w (attributesWorld e attributes metadata w) =
           EvMkdirAll (path_Dir e attributes) (7 * 64 + 5 * 8 + 5) # EvCreate attributes #
           map (\<lambda>k. EvWrite attributes (lineOf (Attributes metadata) k))
             (nonEmptyKeys e (Attributes metadata)) @ [EvClose attributes] \<and>
         distinct (nonEmptyKeys e (Attributes metadata)) \<and>
         set (nonEmptyKeys e (Attributes metadata)) =
           {k. \<exists>v. Attributes metadata k = Some v \<and> v \<noteq> []} \<and>
         (\<forall>k v. Attributes metadata k = Some v \<longrightarrow>
            lineOf (Attributes metadata) k = ''COREOS_'' @ k @ ''='' @ v @ LF) \<and>
         (Attributes metadata = [''A'' \<mapsto> ''x'', ''B'' \<mapsto> [], ''C'' \<mapsto> ''y''] \<longrightarrow>
            files (attributesWorld e attributes metadata w) attributes =
              Some (''COREOS_A=x'' @ LF @ ''COREOS_C=y'' @ LF) \<or>
            files (attributesWorld e attributes metadata w) attributes =
              Some (''COREOS_C=y'' @ LF @ ''COREOS_A=x'' @ LF))"
proof -
  let ?m = "Attributes metadata"
  note ok = writeMetadataAttributes_ok[OF assms(1,2), of metadata w]
  have r: "attributesResult e attributes metadata w = Return None"
    by (rule ok[THEN conjunct1])
  have f: "files (attributesWorld e attributes metadata w) attributes =
           Some (concat (map (lineOf ?m) (nonEmptyKeys e ?m)))"
    unfolding ok[THEN conjunct2, THEN conjunct1] by (simp add: attributeLines_def)
  have t: "since w (attributesWorld e attributes metadata w) =
           EvMkdirAll (path_Dir e attributes) (7 * 64 + 5 * 8 + 5) # EvCreate attributes #
           map (\<lambda>k. EvWrite attributes (lineOf ?m k)) (nonEmptyKeys e ?m) @ [EvClose attributes]"
    unfolding ok[THEN conjunct2, THEN conjunct2] by (simp add: attributeLines_def comp_def)
  note d = nonEmptyKeys_distinct[OF assms(3)]
  have l: "\<forall>k v. ?m k = Some v \<longrightarrow> lineOf ?m k = ''COREOS_'' @ k @ ''='' @ v @ LF"
    by (simp add: lineOf_def attributeLine_def)
  have ex: "?m = [''A'' \<mapsto> ''x'', ''B'' \<mapsto> [], ''C'' \<mapsto> ''y''] \<longrightarrow>
            files (attributesWorld e attributes metadata w) attributes =
              Some (''COREOS_A=x'' @ LF @ ''COREOS_C=y'' @ LF) \<or>
            files (attributesWorld e attributes metadata w) attributes =
              Some (''COREOS_C=y'' @ LF @ ''COREOS_A=x'' @ LF)"
  proof
    assume m: "?m = [''A'' \<mapsto> ''x'', ''B'' \<mapsto> [], ''C'' \<mapsto> ''y'']"
    have "{k. \<exists>v. ?m k = Some v \<and> v \<noteq> []} = {''A'', ''C''}"
      unfolding m by (auto split: if_splits)
    with d have "distinct (nonEmptyKeys e ?m)" and "set (nonEmptyKeys e ?m) = {''A'', ''C''}"
      by simp_all
    then have "nonEmptyKeys e ?m = [''A'', ''C''] \<or> nonEmptyKeys e ?m = [''C'', ''A'']"
      by (rule distinct_pair) simp
    moreover have "lineOf ?m ''A'' = ''COREOS_A=x'' @ LF" and "lineOf ?m ''C'' = ''COREOS_C=y'' @ LF"
      unfolding m by (simp_all add: lineOf_def attributeLine_def)
    ultimately show "files (attributesWorld e attributes metadata w) attributes =
              Some (''COREOS_A=x'' @ LF @ ''COREOS_C=y'' @ LF) \<or>
            files (attributesWorld e attributes metadata w) attributes =
              Some (''COREOS_C=y'' @ LF @ ''COREOS_A=x'' @ LF)"
      unfolding f by auto
  qed
  from r f t d l ex show ?thesis by blast
qed


theorem attribute_lines_witness:
  "''/tmp/out'' \<noteq> [] \<and> fileWritable exampleEnv ''/tmp/out'' \<and>
   rangeVisitsAll exampleEnv (Attributes exampleMetadata) \<and>
   Attributes exampleMetadata = [''A'' \<mapsto> ''x'', ''B'' \<mapsto> [], ''C'' \<mapsto> ''y''] \<and>
   Attributes exampleMetadata ''A'' = Some ''x'' \<and>
   attributesResult exampleEnv ''/tmp/out'' exampleMetadata exampleWorld = Return None \<and>
   files (attributesWorld exampleEnv ''/tmp/out'' exampleMetadata exampleWorld) ''/tmp/out'' =
     Some (''COREOS_A=x'' @ LF @ ''COREOS_C=y'' @ LF) \<and>
   lineOf (Attributes exampleMetadata) ''A'' = ''COREOS_A=x'' @ LF"
proof -
  have h1: "''/tmp/out'' \<noteq> []" by simp
  have h2: "fileWritable exampleEnv ''/tmp/out''"
    by (simp add: fileWritable_def exampleEnv_def)
  have h3: "rangeVisitsAll exampleEnv (Attributes exampleMetadata)"
    by (auto simp: rangeVisitsAll_def exampleEnv_def exampleMetadata_def)
  have h4: "Attributes exampleMetadata = [''A'' \<mapsto> ''x'', ''B'' \<mapsto> [], ''C'' \<mapsto> ''y'']"
    by (simp add: exampleMetadata_def)
  have h5: "Attributes exampleMetadata ''A'' = Some ''x''"
    by (simp add: exampleMetadata_def)
  have ev: "concat (map (lineOf (Attributes exampleMetadata))
      (nonEmptyKeys exampleEnv (Attributes exampleMetadata))) = ''COREOS_A=x'' @ LF @ ''COREOS_C=y'' @ LF"
    by (simp add: nonEmptyKeys_def lineOf_def exampleEnv_def exampleMetadata_def attributeLine_def)
  note inst = attribute_lines [OF h1 h2 h3, of exampleWorld]
  from inst have "attributesResult exampleEnv ''/tmp/out'' exampleMetadata exampleWorld = Return None"
    by blast
  moreover from inst ev
  have "files (attributesWorld exampleEnv ''/tmp/out'' exampleMetadata exampleWorld) ''/tmp/out'' =
     Some (''COREOS_A=x'' @ LF @ ''COREOS_C=y'' @ LF)"
    by simp
  moreover from inst h5 have "lineOf (Attributes exampleMetadata) ''A'' = ''COREOS_A=x'' @ LF"
    by simp
  ultimately show ?thesis using h1 h2 h3 h4 h5 by blast
qed

text \<open>
  Claim C6, as it is written: for a fixed map, two runs of \<open>writeMetadataAttributes\<close> give
  the same bytes in the file. The loop is a \<open>range\<close> over a Go map, whose order of keys is
  not fixed from one run to the next, and nothing sorts the keys: for the map
  \<open>{A: x, B: "", C: y}\<close> a run that visits \<open>A\<close> before \<open>C\<close> and a run that visits \<open>C\<close> before
  \<open>A\<close> leave different files.
\<close>

theorem attribute_file_counterexample:
  "fileWritable exampleEnv ''/tmp/out'' \<and> fileWritable exampleEnv2 ''/tmp/out'' \<and>
   rangeVisitsAll exampleEnv (Attributes exampleMetadata) \<and>
   rangeVisitsAll exampleEnv2 (Attributes exampleMetadata) \<and>
   files (attributesWorld exampleEnv ''/tmp/out'' exampleMetadata exampleWorld) ''/tmp/out'' =
     Some (''COREOS_A=x'' @ LF @ ''COREOS_C=y'' @ LF) \<and>
   files (attributesWorld exampleEnv2 ''/tmp/out'' exampleMetadata exampleWorld) ''/tmp/out'' =
     Some (''COREOS_C=y'' @ LF @ ''COREOS_A=x'' @ LF) \<and>
   files (attributesWorld exampleEnv ''/tmp/out'' exampleMetadata exampleWorld) ''/tmp/out'' \<noteq>
   files (attributesWorld exampleEnv2 ''/tmp/out'' exampleMetadata exampleWorld) ''/tmp/out''"
proof -
  have w1: "fileWritable exampleEnv ''/tmp/out''"
    by (simp add: fileWritable_def exampleEnv_def)
  have w2: "fileWritable exampleEnv2 ''/tmp/out''"
    by (simp add: fileWritable_def exampleEnv2_def exampleEnv_def)
  have r1: "rangeVisitsAll exampleEnv (Attributes exampleMetadata)"
    by (auto simp: rangeVisitsAll_def exampleEnv_def exampleMetadata_def)
  have r2: "rangeVisitsAll exampleEnv2 (Attributes exampleMetadata)"
    by (auto simp: rangeVisitsAll_def exampleEnv2_def exampleEnv_def exampleMetadata_def)
  have f1: "files (attributesWorld exampleEnv ''/tmp/out'' exampleMetadata exampleWorld) ''/tmp/out'' =
     Some (''COREOS_A=x'' @ LF @ ''COREOS_C=y'' @ LF)"
    by (simp add: attributesWorld_def writeMetadataAttributes_def MkdirAll_def Create_def
        writeVariable_def Write_def appendFile_def Close_def attributeLine_def
        exampleEnv_def exampleMetadata_def)
  have f2: "files (attributesWorld exampleEnv2 ''/tmp/out'' exampleMetadata exampleWorld) ''/tmp/out'' =
     Some (''COREOS_C=y'' @ LF @ ''COREOS_A=x'' @ LF)"
    by (simp add: attributesWorld_def writeMetadataAttributes_def MkdirAll_def Create_def
        writeVariable_def Write_def appendFile_def Close_def attributeLine_def
        exampleEnv2_def exampleEnv_def exampleMetadata_def)
  have ne: "files (attributesWorld exampleEnv ''/tmp/out'' exampleMetadata exampleWorld) ''/tmp/out'' \<noteq>
   files (attributesWorld exampleEnv2 ''/tmp/out'' exampleMetadata exampleWorld) ''/tmp/out''"
    unfolding f1 f2 by (simp add: LF_def)
  from w1 w2 r1 r2 f1 f2 ne show ?thesis by blast
qed


text \<open>
  Claim C6, amended: for a fixed map, two runs of \<open>writeMetadataAttributes\<close> that can
  write the file leave the same lines in it, each as many times in the one as in the
  other, in the order in which each run visits the keys of the map; two runs that visit
  the keys in the same order leave the same bytes.
\<close>

theorem attribute_file_same_lines:
  assumes "attributes \<noteq> []"
    and "fileWritable e1 attributes" and "fileWritable e2 attributes"
    and "rangeVisitsAll e1 (Attributes metadata)" and "rangeVisitsAll e2 (Attributes metadata)"
  shows "files (attributesWorld e1 attributes metadata w1) attributes =
           Some (concat (attributeLines e1 (Attributes metadata))) \<and>
         files (attributesWorld e2 attributes metadata w2) attributes =
           Some (concat (attributeLines e2 (Attributes metadata))) \<and>
         mset (attributeLines e1 (Attributes metadata)) =
           mset (attributeLines e2 (Attributes metadata)) \<and>
         (rangeOrder e1 (Attributes metadata) = rangeOrder e2 (Attributes metadata) \<longrightarrow>
            files (attributesWorld e1 attributes metadata w1) attributes =
            files (attributesWorld e2 attributes metadata w2) attributes)"
proof -
  have f1: "files (attributesWorld e1 attributes metadata w1) attributes =
           Some (concat (attributeLines e1 (Attributes metadata)))"
    unfolding writeMetadataAttributes_ok[OF assms(1,2), of metadata w1, THEN conjunct2, THEN conjunct1]
    by simp
  have f2: "files (attributesWorld e2 attributes metadata w2) attributes =
           Some (concat (attributeLines e2 (Attributes metadata)))"
    unfolding writeMetadataAttributes_ok[OF assms(1,3), of metadata w2, THEN conjunct2, THEN conjunct1]
    by simp
  have ms: "mset (attributeLines e1 (Attributes metadata)) =
           mset (attributeLines e2 (Attributes metadata))"
    using assms(4,5) by (rule attributeLines_mset)
  have same: "rangeOrder e1 (Attributes metadata) = rangeOrder e2 (Attributes metadata) \<longrightarrow>
            files (attributesWorld e1 attributes metadata w1) attributes =
            files (attributesWorld e2 attributes metadata w2) attributes"
    unfolding f1 f2 by (simp add: attributeLines_def nonEmptyKeys_def)
  from f1 f2 ms same show ?thesis by blast
qed

theorem attribute_file_same_lines_witness:
  "''/tmp/out'' \<noteq> [] \<and> fileWritable exampleEnv ''/tmp/out'' \<and>
   fileWritable exampleEnv2 ''/tmp/out'' \<and>
   rangeVisitsAll exampleEnv (Attributes exampleMetadata) \<and>
   rangeVisitsAll exampleEnv2 (Attributes exampleMetadata) \<and>
   mset (attributeLines exampleEnv (Attributes exampleMetadata)) =
     mset (attributeLines exampleEnv2 (Attributes exampleMetadata)) \<and>
   rangeOrder exampleEnv (Attributes exampleMetadata) =
     rangeOrder exampleEnv (Attributes exampleMetadata) \<and>
   files (attributesWorld exampleEnv ''/tmp/out'' exampleMetadata exampleWorld) ''/tmp/out'' =
   files (attributesWorld exampleEnv ''/tmp/out'' exampleMetadata staleWorld) ''/tmp/out''"
proof -
  have h1: "''/tmp/out'' \<noteq> []" by simp
  have h2: "fileWritable exampleEnv ''/tmp/out''"
    by (simp add: fileWritable_def exampleEnv_def)
  have h3: "fileWritable exampleEnv2 ''/tmp/out''"
    by (simp add: fileWritable_def exampleEnv2_def exampleEnv_def)
  have h4: "rangeVisitsAll exampleEnv (Attributes exampleMetadata)"
    by (auto simp: rangeVisitsAll_def exampleEnv_def exampleMetadata_def)
  have h5: "rangeVisitsAll exampleEnv2 (Attributes exampleMetadata)"
    by (auto simp: rangeVisitsAll_def exampleEnv2_def exampleEnv_def exampleMetadata_def)
  from attribute_file_same_lines [OF h1 h2 h3 h4 h5, of exampleWorld exampleWorld]
    attribute_file_same_lines [OF h1 h2 h2 h4 h4, of exampleWorld staleWorld]
    h1 h2 h3 h4 h5
  show ?thesis by blast
qed

end
